theory Spec2Isabelle
  imports Complex_Main
begin

section \<open>JavaScript values and objects\<close>

text \<open>
  The extractors of \<^verbatim>\<open>src/services/ocrService.js\<close> (class \<^verbatim>\<open>DataExtractor\<close>, the
  MRZ-aware variant at lines 839-2174) build a plain JavaScript object \<^verbatim>\<open>data\<close> whose
  properties hold \<^verbatim>\<open>null\<close> or a string. A property read of a missing key gives
  \<^verbatim>\<open>undefined\<close>. An object is an association list in insertion order.

  A JavaScript string is modelled as a \<^typ>\<open>string\<close>, a list of 8-bit characters: the
  model describes the program on ASCII text. Characters above 127 are carried through
  unchanged and are neither whitespace, letters nor digits.
\<close>

datatype jsval = JNull | JUndefined | JStr string

type_synonym obj = "(string \<times> jsval) list"

definition get :: "obj \<Rightarrow> string \<Rightarrow> jsval" where
  \<comment> \<open>\<^verbatim>\<open>o[key]\<close>\<close>
  "get ob key = (case map_of ob key of None \<Rightarrow> JUndefined | Some v \<Rightarrow> v)"

definition has_key :: "string \<Rightarrow> obj \<Rightarrow> bool" where
  \<comment> \<open>\<^verbatim>\<open>key in o\<close>\<close>
  "has_key key ob = (key \<in> set (map fst ob))"

definition delete_key :: "string \<Rightarrow> obj \<Rightarrow> obj" where
  \<comment> \<open>\<^verbatim>\<open>delete o[key]\<close>\<close>
  "delete_key key ob = filter (\<lambda>kv. fst kv \<noteq> key) ob"

fun set_key :: "string \<Rightarrow> jsval \<Rightarrow> obj \<Rightarrow> obj" where
  \<comment> \<open>\<^verbatim>\<open>o[key] = v\<close>: an existing key keeps its place, a new key goes last\<close>
  "set_key key v [] = [(key, v)]"
| "set_key key v ((k, w) # ob) =
     (if k = key then (k, v) # ob else (k, w) # set_key key v ob)"

definition truthy :: "jsval \<Rightarrow> bool" where
  \<comment> \<open>JavaScript truthiness of null, undefined and strings\<close>
  "truthy v = (case v of JStr s \<Rightarrow> s \<noteq> [] | _ \<Rightarrow> False)"

section \<open>JavaScript strings\<close>

datatype error = TypeError

definition is_digit :: "char \<Rightarrow> bool" where
  "is_digit c = ((48::nat) \<le> of_char c \<and> of_char c \<le> (57::nat))"

definition is_upper :: "char \<Rightarrow> bool" where
  "is_upper c = ((65::nat) \<le> of_char c \<and> of_char c \<le> (90::nat))"

definition is_lower :: "char \<Rightarrow> bool" where
  "is_lower c = ((97::nat) \<le> of_char c \<and> of_char c \<le> (122::nat))"

definition is_alpha :: "char \<Rightarrow> bool" where
  "is_alpha c = (is_upper c \<or> is_lower c)"

definition is_word :: "char \<Rightarrow> bool" where
  \<comment> \<open>the class \<^verbatim>\<open>\w\<close>\<close>
  "is_word c = (is_alpha c \<or> is_digit c \<or> c = CHR ''_'')"

definition is_space :: "char \<Rightarrow> bool" where
  \<comment> \<open>the class \<^verbatim>\<open>\s\<close> on ASCII: tab, line feed, vertical tab, form feed,
      carriage return, space\<close>
  "is_space c = ((of_char c :: nat) \<in> {9, 10, 11, 12, 13, 32})"

definition is_line_terminator :: "char \<Rightarrow> bool" where
  "is_line_terminator c = (c = CHR 0x0A \<or> c = CHR 0x0D)"

definition toUpperChar :: "char \<Rightarrow> char" where
  "toUpperChar c = (if is_lower c then char_of ((of_char c :: nat) - 32) else c)"

definition toLowerChar :: "char \<Rightarrow> char" where
  "toLowerChar c = (if is_upper c then char_of ((of_char c :: nat) + 32) else c)"

definition toUpperCase :: "string \<Rightarrow> string" where
  "toUpperCase s = map toUpperChar s"

definition toLowerCase :: "string \<Rightarrow> string" where
  "toLowerCase s = map toLowerChar s"

definition trim :: "string \<Rightarrow> string" where
  "trim s = rev (dropWhile is_space (rev (dropWhile is_space s)))"

definition startsWith :: "string \<Rightarrow> string \<Rightarrow> bool" where
  "startsWith s p = (take (length p) s = p)"

definition endsWith :: "string \<Rightarrow> string \<Rightarrow> bool" where
  "endsWith s p = (length p \<le> length s \<and> drop (length s - length p) s = p)"

fun str_includes :: "string \<Rightarrow> string \<Rightarrow> bool" where
  "str_includes [] p = (p = [])"
| "str_includes (x # s) p = (startsWith (x # s) p \<or> str_includes s p)"

definition substring :: "string \<Rightarrow> nat \<Rightarrow> nat \<Rightarrow> string" where
  \<comment> \<open>\<^verbatim>\<open>s.substring(a, b)\<close> for \<open>a \<le> b\<close>, the only way the source calls it\<close>
  "substring s a b = take (b - a) (drop a s)"

definition substring_from :: "string \<Rightarrow> nat \<Rightarrow> string" where
  \<comment> \<open>\<^verbatim>\<open>s.substring(a)\<close>\<close>
  "substring_from s a = drop a s"

definition padEnd :: "string \<Rightarrow> nat \<Rightarrow> char \<Rightarrow> string" where
  "padEnd s n c = s @ replicate (n - length s) c"

definition padStart :: "string \<Rightarrow> nat \<Rightarrow> char \<Rightarrow> string" where
  "padStart s n c = replicate (n - length s) c @ s"

definition idx :: "'a list \<Rightarrow> nat \<Rightarrow> 'a option" where
  \<comment> \<open>\<^verbatim>\<open>xs[i]\<close>: \<open>None\<close> is \<^verbatim>\<open>undefined\<close>\<close>
  "idx xs i = (if i < length xs then Some (xs ! i) else None)"

section \<open>Regular expressions\<close>

text \<open>
  The regular expressions of the source are values of the datatype \<open>regex\<close>; the
  matcher is a backtracking matcher in continuation-passing style with the priorities of
  the ECMAScript semantics: the left alternative first, a greedy quantifier tries one
  more iteration first, a lazy quantifier tries to stop first. A position is the pair
  of the text already read (reversed) and the text still to read. Captures are an
  association list, the latest binding first. An iteration of a star that reads
  nothing is rejected, as in ECMAScript.
\<close>

type_synonym pos = "string \<times> string"
type_synonym caps = "(nat \<times> string) list"

datatype regex =
    Chr "char \<Rightarrow> bool"
  | Eps
  | Seq regex regex
  | Alt regex regex
  | Star bool regex
  | Grp nat regex
  | Bol
  | Eol
  | EolM
  | WordB
  | BackRef nat

definition captured :: "pos \<Rightarrow> pos \<Rightarrow> string" where
  \<comment> \<open>the text between two positions\<close>
  "captured p p' = rev (take (length (fst p') - length (fst p)) (fst p'))"

definition at_word_boundary :: "pos \<Rightarrow> bool" where
  "at_word_boundary p =
     ((case fst p of [] \<Rightarrow> False | x # _ \<Rightarrow> is_word x) \<noteq>
      (case snd p of [] \<Rightarrow> False | x # _ \<Rightarrow> is_word x))"

fun match_lit :: "string \<Rightarrow> pos \<Rightarrow> pos option" where
  "match_lit [] p = Some p"
| "match_lit (x # xs) (b, []) = None"
| "match_lit (x # xs) (b, y # a) = (if x = y then match_lit xs (y # b, a) else None)"

fun rmatch :: "regex \<Rightarrow> pos \<Rightarrow> caps \<Rightarrow> (pos \<Rightarrow> caps \<Rightarrow> 'a option) \<Rightarrow> 'a option" where
  "rmatch (Chr f) p c k =
     (case snd p of [] \<Rightarrow> None
      | x # a \<Rightarrow> if f x then k (x # fst p, a) c else None)"
| "rmatch Eps p c k = k p c"
| "rmatch (Seq r1 r2) p c k = rmatch r1 p c (\<lambda>p' c'. rmatch r2 p' c' k)"
| "rmatch (Alt r1 r2) p c k =
     (case rmatch r1 p c k of Some x \<Rightarrow> Some x | None \<Rightarrow> rmatch r2 p c k)"
| "rmatch (Star greedy r) p c k =
     (if greedy then
        (case rmatch r p c (\<lambda>p' c'. if length (snd p') < length (snd p)
                                      then rmatch (Star greedy r) p' c' k else None) of
           Some x \<Rightarrow> Some x
         | None \<Rightarrow> k p c)
      else
        (case k p c of
           Some x \<Rightarrow> Some x
         | None \<Rightarrow> rmatch r p c (\<lambda>p' c'. if length (snd p') < length (snd p)
                                      then rmatch (Star greedy r) p' c' k else None)))"
| "rmatch (Grp n r) p c k = rmatch r p c (\<lambda>p' c'. k p' ((n, captured p p') # c'))"
| "rmatch Bol p c k = (if fst p = [] then k p c else None)"
| "rmatch Eol p c k = (if snd p = [] then k p c else None)"
| "rmatch EolM p c k =
     (case snd p of [] \<Rightarrow> k p c
      | x # _ \<Rightarrow> if is_line_terminator x then k p c else None)"
| "rmatch WordB p c k = (if at_word_boundary p then k p c else None)"
| "rmatch (BackRef n) p c k =
     (case map_of c n of None \<Rightarrow> k p c
      | Some s \<Rightarrow> (case match_lit s p of None \<Rightarrow> None | Some p' \<Rightarrow> k p' c))"

definition match_at :: "regex \<Rightarrow> pos \<Rightarrow> (pos \<times> caps) option" where
  \<comment> \<open>a match that starts exactly at the position\<close>
  "match_at r p = rmatch r p [] (\<lambda>p' c'. Some (p', c'))"

fun rsearch :: "regex \<Rightarrow> pos \<Rightarrow> (pos \<times> pos \<times> caps) option" where
  \<comment> \<open>the leftmost match at or after the position: its start, its end, its captures\<close>
  "rsearch r (b, a) =
     (case match_at r (b, a) of
        Some (p', c) \<Rightarrow> Some ((b, a), p', c)
      | None \<Rightarrow> (case a of [] \<Rightarrow> None | x # a' \<Rightarrow> rsearch r (x # b, a')))"

subsection \<open>Regular expression syntax\<close>

definition rchar :: "char \<Rightarrow> regex" where
  "rchar x = Chr (\<lambda>y. y = x)"

definition rchar_i :: "char \<Rightarrow> regex" where
  \<comment> \<open>a literal character under the flag \<^verbatim>\<open>i\<close>\<close>
  "rchar_i x = Chr (\<lambda>y. toUpperChar y = toUpperChar x)"

definition rstr :: "string \<Rightarrow> regex" where
  "rstr s = foldr (\<lambda>x r. Seq (rchar x) r) s Eps"

definition rstr_i :: "string \<Rightarrow> regex" where
  "rstr_i s = foldr (\<lambda>x r. Seq (rchar_i x) r) s Eps"

definition rcls_i :: "(char \<Rightarrow> bool) \<Rightarrow> regex" where
  \<comment> \<open>a character class under the flag \<^verbatim>\<open>i\<close>\<close>
  "rcls_i f = Chr (\<lambda>y. f y \<or> f (toUpperChar y) \<or> f (toLowerChar y))"

definition rncls_i :: "(char \<Rightarrow> bool) \<Rightarrow> regex" where
  \<comment> \<open>a negated character class under the flag \<^verbatim>\<open>i\<close>\<close>
  "rncls_i f = Chr (\<lambda>y. \<not> (f y \<or> f (toUpperChar y) \<or> f (toLowerChar y)))"

definition rany :: regex where
  \<comment> \<open>the dot\<close>
  "rany = Chr (\<lambda>y. \<not> is_line_terminator y)"

definition rstar :: "regex \<Rightarrow> regex" where
  "rstar r = Star True r"

definition rstar_lazy :: "regex \<Rightarrow> regex" where
  "rstar_lazy r = Star False r"

definition rplus :: "regex \<Rightarrow> regex" where
  "rplus r = Seq r (Star True r)"

definition rplus_lazy :: "regex \<Rightarrow> regex" where
  "rplus_lazy r = Seq r (Star False r)"

definition ropt :: "regex \<Rightarrow> regex" where
  "ropt r = Alt r Eps"

fun rrep :: "nat \<Rightarrow> regex \<Rightarrow> regex" where
  \<comment> \<open>\<^verbatim>\<open>r{n}\<close>\<close>
  "rrep 0 r = Eps"
| "rrep (Suc n) r = Seq r (rrep n r)"

fun rupto :: "nat \<Rightarrow> regex \<Rightarrow> regex" where
  \<comment> \<open>\<^verbatim>\<open>r{0,n}\<close>\<close>
  "rupto 0 r = Eps"
| "rupto (Suc n) r = Alt (Seq r (rupto n r)) Eps"

definition rrange :: "nat \<Rightarrow> nat \<Rightarrow> regex \<Rightarrow> regex" where
  \<comment> \<open>\<^verbatim>\<open>r{n,m}\<close>\<close>
  "rrange n m r = Seq (rrep n r) (rupto (m - n) r)"

definition rmin :: "nat \<Rightarrow> regex \<Rightarrow> regex" where
  \<comment> \<open>\<^verbatim>\<open>r{n,}\<close>\<close>
  "rmin n r = Seq (rrep n r) (Star True r)"

definition rmin_lazy :: "nat \<Rightarrow> regex \<Rightarrow> regex" where
  \<comment> \<open>\<^verbatim>\<open>r{n,}?\<close>\<close>
  "rmin_lazy n r = Seq (rrep n r) (Star False r)"

definition seqs :: "regex list \<Rightarrow> regex" where
  "seqs rs = foldr Seq rs Eps"

fun alts :: "regex list \<Rightarrow> regex" where
  "alts [] = Eps"
| "alts [r] = r"
| "alts (r # rs) = Alt r (alts rs)"

definition rdigit :: regex where
  "rdigit = Chr is_digit"

definition rspace :: regex where
  "rspace = Chr is_space"

subsection \<open>The string methods that take a regular expression\<close>

datatype tpart = TStr string | TGroup nat

definition expand :: "tpart list \<Rightarrow> caps \<Rightarrow> string" where
  \<comment> \<open>a replacement string with \<^verbatim>\<open>$n\<close>; a group that took no part is empty\<close>
  "expand tmpl c =
     concat (map (\<lambda>t. case t of TStr s \<Rightarrow> s
                         | TGroup n \<Rightarrow> (case map_of c n of None \<Rightarrow> [] | Some g \<Rightarrow> g)) tmpl)"

definition re_match :: "regex \<Rightarrow> string \<Rightarrow> (string \<times> caps) option" where
  \<comment> \<open>\<^verbatim>\<open>s.match(re)\<close> without the flag \<^verbatim>\<open>g\<close>: the matched text and the groups\<close>
  "re_match r s =
     (case rsearch r ([], s) of None \<Rightarrow> None
      | Some (p, p', c) \<Rightarrow> Some (captured p p', c))"

definition group :: "(string \<times> caps) \<Rightarrow> nat \<Rightarrow> string option" where
  \<comment> \<open>\<^verbatim>\<open>m[n]\<close>: \<open>None\<close> is \<^verbatim>\<open>undefined\<close>\<close>
  "group m n = (if n = 0 then Some (fst m) else map_of (snd m) n)"

definition re_test :: "regex \<Rightarrow> string \<Rightarrow> bool" where
  \<comment> \<open>\<^verbatim>\<open>re.test(s)\<close>, and \<^verbatim>\<open>s.match(re)\<close> used as a condition\<close>
  "re_test r s = (rsearch r ([], s) \<noteq> None)"

definition re_replace :: "regex \<Rightarrow> tpart list \<Rightarrow> string \<Rightarrow> string" where
  \<comment> \<open>\<^verbatim>\<open>s.replace(re, tmpl)\<close> without the flag \<^verbatim>\<open>g\<close>\<close>
  "re_replace r tmpl s =
     (case rsearch r ([], s) of None \<Rightarrow> s
      | Some (p, p', c) \<Rightarrow> rev (fst p) @ expand tmpl c @ snd p')"

function matches_from :: "regex \<Rightarrow> pos \<Rightarrow> (pos \<times> pos \<times> caps) list" where
  \<comment> \<open>the successive matches of a regular expression with the flag \<^verbatim>\<open>g\<close>: after a
      match the search goes on at its end, after an empty match one character later\<close>
  "matches_from r p =
     (case rsearch r p of None \<Rightarrow> []
      | Some (ps, pe, c) \<Rightarrow>
          (ps, pe, c) #
          (case (if length (snd pe) < length (snd ps) then Some pe
                 else (case snd pe of [] \<Rightarrow> None | x # a \<Rightarrow> Some (x # fst pe, a))) of
             None \<Rightarrow> []
           | Some q \<Rightarrow> if length (snd q) < length (snd p) then matches_from r q else []))"
  by pat_completeness auto
termination
  by (relation "measure (\<lambda>(r, p). length (snd p))") auto

definition re_match_all :: "regex \<Rightarrow> string \<Rightarrow> string list" where
  \<comment> \<open>\<^verbatim>\<open>s.match(re) || []\<close> with the flag \<^verbatim>\<open>g\<close>, and the \<^verbatim>\<open>match[0]\<close> of
      \<^verbatim>\<open>s.matchAll(re)\<close>\<close>
  "re_match_all r s = map (\<lambda>(ps, pe, c). captured ps pe) (matches_from r ([], s))"

fun splice :: "tpart list \<Rightarrow> pos \<Rightarrow> (pos \<times> pos \<times> caps) list \<Rightarrow> string" where
  \<comment> \<open>the text from a position on, each listed match replaced\<close>
  "splice tmpl p [] = snd p"
| "splice tmpl p ((ps, pe, c) # ms) =
     captured p ps @ expand tmpl c @ splice tmpl pe ms"

definition re_replace_all :: "regex \<Rightarrow> tpart list \<Rightarrow> string \<Rightarrow> string" where
  \<comment> \<open>\<^verbatim>\<open>s.replace(re, tmpl)\<close> with the flag \<^verbatim>\<open>g\<close>\<close>
  "re_replace_all r tmpl s = splice tmpl ([], s) (matches_from r ([], s))"

function split_loop :: "regex \<Rightarrow> string \<Rightarrow> pos \<Rightarrow> string list" where
  \<comment> \<open>the loop of \<^verbatim>\<open>s.split(re)\<close>: the piece read so far (reversed) and the position\<close>
  "split_loop r acc (b, []) = [rev acc]"
| "split_loop r acc (b, x # a) =
     (case rmatch r (b, x # a) [] (\<lambda>p' c'. Some p') of
        None \<Rightarrow> split_loop r (x # acc) (x # b, a)
      | Some p' \<Rightarrow>
          if length (snd p') < length (x # a) then rev acc # split_loop r [] p'
          else split_loop r (x # acc) (x # b, a))"
  by pat_completeness auto
termination
  by (relation "measure (\<lambda>(r, acc, p). length (snd p))") auto

definition split :: "regex \<Rightarrow> string \<Rightarrow> string list" where
  \<comment> \<open>\<^verbatim>\<open>s.split(sep)\<close> for a separator that matches no empty text (every separator of
      the source): on the empty string the result is the one empty piece\<close>
  "split r s = split_loop r [] ([], s)"

section \<open>Control flow\<close>

text \<open>
  A \<^verbatim>\<open>for (let i = lo; i < hi; i++)\<close> loop runs its body on the indices in order; the
  body ends an iteration normally or with \<^verbatim>\<open>break\<close>, or throws. Every block of an
  extractor assigns one property of \<^verbatim>\<open>data\<close>: it is modelled as a function from the
  current value of that property to its new value, and the extractor stores the result.
  A method call on \<^verbatim>\<open>undefined\<close> throws a \<^verbatim>\<open>TypeError\<close>.
\<close>

datatype 's step = Continue 's | Break 's

fun for_range :: "nat \<Rightarrow> nat \<Rightarrow> (nat \<Rightarrow> 's \<Rightarrow> error + 's step) \<Rightarrow> 's \<Rightarrow> error + 's" where
  \<comment> \<open>\<open>for_range lo n body s\<close>: the \<open>n\<close> iterations from index \<open>lo\<close> on\<close>
  "for_range i 0 body s = Inr s"
| "for_range i (Suc n) body s =
     (case body i s of
        Inl e \<Rightarrow> Inl e
      | Inr (Break s') \<Rightarrow> Inr s'
      | Inr (Continue s') \<Rightarrow> for_range (Suc i) n body s')"

definition bindE :: "error + 'a \<Rightarrow> ('a \<Rightarrow> error + 'b) \<Rightarrow> error + 'b" where
  "bindE m f = (case m of Inl e \<Rightarrow> Inl e | Inr x \<Rightarrow> f x)"

definition js_of :: "string option \<Rightarrow> jsval" where
  "js_of g = (case g of None \<Rightarrow> JUndefined | Some s \<Rightarrow> JStr s)"

definition label_body ::
  "string list \<Rightarrow> (string \<Rightarrow> bool) \<Rightarrow> regex \<Rightarrow> (string \<Rightarrow> string option) \<Rightarrow>
   (string \<Rightarrow> string option) \<Rightarrow> nat \<Rightarrow> jsval \<Rightarrow> error + jsval step" where
  \<comment> \<open>The body shared by the label loops: on a line that carries the label, the value
      after the label on the same line (\<^verbatim>\<open>sameLineMatch && sameLineMatch[1]\<close>) is
      assigned when \<open>same\<close> accepts it; otherwise, when the property is still falsy
      and a next line exists, the next line is assigned when \<open>next\<close> accepts it.\<close>
  "label_body lines isLabel sameLine same next i v =
     (case idx lines i of
        None \<Rightarrow> Inl TypeError
      | Some l \<Rightarrow>
          (let line = trim l; lineUpper = toUpperCase line in
           if isLabel lineUpper then
             (case (case re_match sameLine line of
                      None \<Rightarrow> None
                    | Some sameLineMatch \<Rightarrow>
                        (case group sameLineMatch 1 of
                           None \<Rightarrow> None
                         | Some g \<Rightarrow> if g = [] then None else same g)) of
                Some r \<Rightarrow> Inr (Break (JStr r))
              | None \<Rightarrow>
                  if \<not> truthy v \<and> i + 1 < length lines then
                    (case idx lines (i + 1) of
                       None \<Rightarrow> Inl TypeError
                     | Some l' \<Rightarrow>
                         (case next l' of
                            Some r \<Rightarrow> Inr (Break (JStr r))
                          | None \<Rightarrow> Inr (Continue v)))
                  else Inr (Continue v))
           else Inr (Continue v)))"

definition label_loop ::
  "string list \<Rightarrow> (string \<Rightarrow> bool) \<Rightarrow> regex \<Rightarrow> (string \<Rightarrow> string option) \<Rightarrow>
   (string \<Rightarrow> string option) \<Rightarrow> jsval \<Rightarrow> error + jsval" where
  "label_loop lines isLabel sameLine same next v =
     for_range 0 (length lines) (label_body lines isLabel sameLine same next) v"

definition line_body ::
  "string list \<Rightarrow> (nat \<Rightarrow> string \<Rightarrow> (error + jsval) option) \<Rightarrow> nat \<Rightarrow> jsval \<Rightarrow>
   error + jsval step" where
  \<comment> \<open>The body shared by the fallback loops over the lines: the first line for which
      \<open>f\<close> gives a value is assigned and ends the loop.\<close>
  "line_body lines f i v =
     (case idx lines i of
        None \<Rightarrow> Inl TypeError
      | Some l \<Rightarrow>
          (case f i l of
             None \<Rightarrow> Inr (Continue v)
           | Some (Inl e) \<Rightarrow> Inl e
           | Some (Inr r) \<Rightarrow> Inr (Break r)))"

definition line_loop ::
  "string list \<Rightarrow> (nat \<Rightarrow> string \<Rightarrow> (error + jsval) option) \<Rightarrow> jsval \<Rightarrow> error + jsval" where
  "line_loop lines f v = for_range 0 (length lines) (line_body lines f) v"

section \<open>Text normalisation shared by both extractors\<close>

definition colon_or_space :: regex where
  \<comment> \<open>\<^verbatim>\<open>[:\s]\<close>\<close>
  "colon_or_space = Chr (\<lambda>c. c = CHR '':'' \<or> is_space c)"

definition starts_with_digit :: regex where
  \<comment> \<open>\<^verbatim>\<open>/^\d/\<close>\<close>
  "starts_with_digit = Seq Bol rdigit"

definition collapse_spaces :: "string \<Rightarrow> string" where
  \<comment> \<open>\<^verbatim>\<open>s.replace(/\s+/g, " ")\<close>\<close>
  "collapse_spaces s = re_replace_all (rplus rspace) [TStr '' ''] s"

definition normalize :: "string \<Rightarrow> string" where
  \<comment> \<open>\<^verbatim>\<open>text.replace(/\s+/g, " ").trim()\<close>\<close>
  "normalize text = trim (collapse_spaces text)"

definition line_break :: regex where
  \<comment> \<open>\<^verbatim>\<open>/\n|\r\n?/\<close>\<close>
  "line_break = Alt (rchar (CHR 0x0A)) (Seq (rchar (CHR 0x0D)) (ropt (rchar (CHR 0x0A))))"

definition text_lines :: "string \<Rightarrow> string list" where
  \<comment> \<open>\<^verbatim>\<open>text.split(/\n|\r\n?/).map(trim).filter(line => line.length > 0)\<close>\<close>
  "text_lines text = filter (\<lambda>line. length line > 0) (map trim (split line_break text))"

definition numeric_date :: regex where
  \<comment> \<open>\<^verbatim>\<open>\d{1,2}[.\/]\d{1,2}[.\/]\d{4}\<close>\<close>
  "numeric_date =
     seqs [rrange 1 2 rdigit, Chr (\<lambda>c. c = CHR ''.'' \<or> c = CHR ''/''),
           rrange 1 2 rdigit, Chr (\<lambda>c. c = CHR ''.'' \<or> c = CHR ''/''), rrep 4 rdigit]"

definition genderPattern :: regex where
  \<comment> \<open>\<^verbatim>\<open>/\b(MALE|FEMALE|M|F)\b/i\<close>\<close>
  "genderPattern =
     seqs [WordB, Grp 1 (alts [rstr_i ''MALE'', rstr_i ''FEMALE'', rstr_i ''M'', rstr_i ''F'']),
           WordB]"

definition gender_block :: "string \<Rightarrow> jsval \<Rightarrow> error + jsval" where
  \<comment> \<open>lines 910-915 and 1670-1675\<close>
  "gender_block normalizedText v =
     (case re_match genderPattern normalizedText of
        None \<Rightarrow> Inr v
      | Some genderMatch \<Rightarrow>
          (case group genderMatch 1 of
             None \<Rightarrow> Inl TypeError
           | Some g \<Rightarrow> Inr (JStr (toUpperCase g))))"

definition formatCnic :: "string \<Rightarrow> string" where
  \<comment> \<open>the template of lines 867-870, 2102-2105 and of part\_001, line 297\<close>
  "formatCnic cnic =
     substring cnic 0 5 @ ''-'' @ substring cnic 5 12 @ ''-'' @ substring_from cnic 12"

section \<open>extractCNICData (ocrService.js, lines 843-1390)\<close>

definition cnicPattern :: regex where
  \<comment> \<open>\<^verbatim>\<open>/(\d{5}[-]?\s?\d{7}[-]?\s?\d{1})/\<close>\<close>
  "cnicPattern =
     Grp 1 (seqs [rrep 5 rdigit, ropt (rchar CHR ''-''), ropt rspace,
                  rrep 7 rdigit, ropt (rchar CHR ''-''), ropt rspace, rrep 1 rdigit])"

definition cnicNumber_block :: "string \<Rightarrow> jsval \<Rightarrow> error + jsval" where
  \<comment> \<open>lines 860-874\<close>
  "cnicNumber_block normalizedText v =
     (case re_match cnicPattern normalizedText of
        None \<Rightarrow> Inr v
      | Some cnicMatch \<Rightarrow>
          (case group cnicMatch 1 of
             None \<Rightarrow> Inl TypeError
           | Some g \<Rightarrow>
               (let cnic = re_replace_all (rchar CHR ''-'') [] (re_replace_all rspace [] g)
                in if length cnic = 13 then Inr (JStr (formatCnic cnic))
                   else Inr (JStr g))))"

definition datePattern :: regex where
  \<comment> \<open>\<^verbatim>\<open>/(\d{1,2}[.\/]\d{1,2}[.\/]\d{4})/g\<close>\<close>
  "datePattern = Grp 1 numeric_date"

definition dobPattern :: regex where
  \<comment> \<open>\<^verbatim>\<open>/(?:DOB|Date\s+of\s+Birth|Birth)[:\s]*(\d{1,2}[.\/]\d{1,2}[.\/]\d{4})/i\<close>\<close>
  "dobPattern =
     seqs [alts [rstr_i ''DOB'',
                 seqs [rstr_i ''Date'', rplus rspace, rstr_i ''of'', rplus rspace,
                       rstr_i ''Birth''],
                 rstr_i ''Birth''],
           rstar colon_or_space, Grp 1 numeric_date]"

definition issuePattern :: regex where
  \<comment> \<open>\<^verbatim>\<open>/(?:DOI|Date\s+of\s+Issue|Issue)[:\s]*(\d{1,2}[.\/]\d{1,2}[.\/]\d{4})/i\<close>\<close>
  "issuePattern =
     seqs [alts [rstr_i ''DOI'',
                 seqs [rstr_i ''Date'', rplus rspace, rstr_i ''of'', rplus rspace,
                       rstr_i ''Issue''],
                 rstr_i ''Issue''],
           rstar colon_or_space, Grp 1 numeric_date]"

definition expiryPattern :: regex where
  \<comment> \<open>\<^verbatim>\<open>/(?:DOE|Date\s+of\s+Expiry|Expiry|Valid\s+Until)[:\s]*(\d{1,2}[.\/]\d{1,2}[.\/]\d{4})/i\<close>\<close>
  "expiryPattern =
     seqs [alts [rstr_i ''DOE'',
                 seqs [rstr_i ''Date'', rplus rspace, rstr_i ''of'', rplus rspace,
                       rstr_i ''Expiry''],
                 rstr_i ''Expiry'',
                 seqs [rstr_i ''Valid'', rplus rspace, rstr_i ''Until'']],
           rstar colon_or_space, Grp 1 numeric_date]"

definition date_block :: "regex \<Rightarrow> string \<Rightarrow> string list \<Rightarrow> nat \<Rightarrow> jsval \<Rightarrow> jsval" where
  \<comment> \<open>lines 892-908: \<^verbatim>\<open>if (m) data.f = m[1]; else if (dates.length >= n + 1)
      data.f = dates[n];\<close>\<close>
  "date_block pattern normalizedText dates n v =
     (case re_match pattern normalizedText of
        Some m \<Rightarrow> js_of (group m 1)
      | None \<Rightarrow> if length dates \<ge> n + 1 then js_of (idx dates n) else v)"

definition excludeKeywords :: "string list" where
  "excludeKeywords =
     [''PAKISTAN'', ''PAK'', ''NATIONAL'', ''IDENTITY'', ''CARD'', ''ISLAMIC'', ''REPUBLIC'',
      ''CNIC'', ''MALE'', ''FEMALE'', ''GENDER'', ''COUNTRY'', ''DATE'', ''BIRTH'', ''ISSUE'',
      ''EXPIRY'', ''ADDRESS'', ''HOLDER'', ''SIGNATURE'', ''STAY'', ''OF'', ''NUMBER'']"

definition starts_with_any :: "string list \<Rightarrow> regex" where
  \<comment> \<open>\<^verbatim>\<open>/^(W1|W2|...)/\<close>\<close>
  "starts_with_any ws = Seq Bol (Grp 1 (alts (map rstr ws)))"

definition ends_excluded :: "string \<Rightarrow> bool" where
  \<comment> \<open>\<^verbatim>\<open>containsExcluded\<close> of lines 971-976 and 1104-1109\<close>
  "ends_excluded valueUpper =
     list_ex (\<lambda>keyword. valueUpper = keyword \<or> startsWith valueUpper (keyword @ '' '') \<or>
                         endsWith valueUpper ('' '' @ keyword)) excludeKeywords"

definition short_excluded :: "string \<Rightarrow> bool" where
  \<comment> \<open>\<^verbatim>\<open>containsExcluded\<close> of lines 999-1003 and 1138-1142\<close>
  "short_excluded valueUpper =
     list_ex (\<lambda>keyword. valueUpper = keyword \<or>
                         (length valueUpper < 20 \<and> str_includes valueUpper keyword))
             excludeKeywords"

definition line_excluded :: "string \<Rightarrow> bool" where
  \<comment> \<open>\<^verbatim>\<open>containsExcluded\<close> of lines 1048-1050 and 1202-1204\<close>
  "line_excluded lineUpper =
     list_ex (\<lambda>keyword. str_includes lineUpper keyword \<and> length lineUpper < 30)
             excludeKeywords"

definition isNameLabel :: "string \<Rightarrow> bool" where
  "isNameLabel lineUpper =
     (let hasName = str_includes lineUpper ''NAME'';
          hasFather = str_includes lineUpper ''FATHER'';
          hasHusband = str_includes lineUpper ''HUSBAND''
      in hasName \<and> \<not> hasFather \<and> \<not> hasHusband)"

definition name_sameLine :: regex where
  \<comment> \<open>\<^verbatim>\<open>/Name[:\s]+(.+)$/i\<close>\<close>
  "name_sameLine = seqs [rstr_i ''Name'', rplus colon_or_space, Grp 1 (rplus rany), Eol]"

definition name_same :: "string \<Rightarrow> string option" where
  \<comment> \<open>lines 966-989\<close>
  "name_same g =
     (let name = collapse_spaces (trim g);
          nameUpper = toUpperCase name;
          containsExcluded = ends_excluded nameUpper;
          isAnotherLabel = re_test (starts_with_any
             [''FATHER'', ''HUSBAND'', ''GENDER'', ''COUNTRY'', ''IDENTITY'', ''CNIC'', ''DATE'',
              ''BIRTH'', ''ISSUE'', ''EXPIRY'']) nameUpper
      in if length name \<ge> 2 \<and> \<not> re_test starts_with_digit name \<and> \<not> containsExcluded \<and>
            \<not> isAnotherLabel
         then Some (toUpperCase name) else None)"

definition name_next :: "string \<Rightarrow> string option" where
  \<comment> \<open>lines 994-1016\<close>
  "name_next l =
     (let name = collapse_spaces (trim l);
          nameUpper = toUpperCase name;
          containsExcluded = short_excluded nameUpper
      in if length name \<ge> 2 \<and> \<not> re_test starts_with_digit name \<and> \<not> containsExcluded \<and>
            \<not> re_test (starts_with_any
               [''FATHER'', ''HUSBAND'', ''GENDER'', ''COUNTRY'', ''IDENTITY'', ''CNIC'', ''DATE'',
                ''BIRTH'', ''ISSUE'', ''EXPIRY'', ''MALE'', ''FEMALE'']) nameUpper
         then Some (toUpperCase name) else None)"

definition header_body :: "string list \<Rightarrow> nat \<Rightarrow> int \<Rightarrow> error + int step" where
  \<comment> \<open>lines 1026-1035\<close>
  "header_body lines i headerEndIndex =
     (case idx lines i of
        None \<Rightarrow> Inl TypeError
      | Some l \<Rightarrow>
          (let lineUpper = toUpperCase l in
           if str_includes lineUpper ''PAKISTAN'' \<or> str_includes lineUpper ''IDENTITY'' \<or>
              str_includes lineUpper ''CARD''
           then Inr (Continue (int i)) else Inr (Continue headerEndIndex)))"

definition name_fallback_line :: "nat \<Rightarrow> string \<Rightarrow> (error + jsval) option" where
  \<comment> \<open>lines 1044-1073\<close>
  "name_fallback_line i l =
     (let line = trim l;
          lineUpper = toUpperCase line;
          containsExcluded = line_excluded lineUpper;
          isLabel = re_test (starts_with_any
             [''FATHER'', ''HUSBAND'', ''GENDER'', ''COUNTRY'', ''IDENTITY'', ''CNIC'', ''DATE'',
              ''BIRTH'', ''ISSUE'', ''EXPIRY'', ''MALE'', ''FEMALE'']) lineUpper;
          hasNumbers = re_test (rrep 5 rdigit) line;
          wordCount = length (split (rplus rspace) line);
          isNameLike = (wordCount \<ge> 1 \<and> wordCount \<le> 4 \<and> length line \<ge> 3 \<and>
                        length line \<le> 30 \<and> \<not> re_test starts_with_digit line \<and>
                        \<not> containsExcluded \<and> \<not> isLabel \<and> \<not> hasNumbers)
      in if isNameLike
         then (let cleanedName = trim (collapse_spaces line)
               in Some (Inr (JStr (toUpperCase cleanedName))))
         else None)"

definition name_fallback :: "string list \<Rightarrow> jsval \<Rightarrow> error + jsval" where
  \<comment> \<open>lines 1023-1075\<close>
  "name_fallback lines v =
     (if \<not> truthy v \<and> length lines > 1 then
        bindE (for_range 0 (min (length lines) 5) (header_body lines) (- 1))
          (\<lambda>headerEndIndex.
             let startIndex = (if headerEndIndex \<ge> 0 then nat headerEndIndex + 1 else 1)
             in for_range startIndex (min (length lines) (startIndex + 5) - startIndex)
                  (line_body lines name_fallback_line) v)
      else Inr v)"

definition isFatherNameLabel :: "string \<Rightarrow> bool" where
  "isFatherNameLabel lineUpper =
     (let hasFather = str_includes lineUpper ''FATHER'';
          hasHusband = str_includes lineUpper ''HUSBAND'';
          hasName = str_includes lineUpper ''NAME''
      in (hasFather \<and> hasName) \<or> (hasHusband \<and> hasName) \<or> str_includes lineUpper ''S/O'' \<or>
         str_includes lineUpper ''D/O'' \<or> str_includes lineUpper ''W/O'')"

definition father_sameLine :: regex where
  \<comment> \<open>\<^verbatim>\<open>/(?:Father\s+Name|Father|Husband\s+Name|Husband|S\/O|D\/O|W\/O)[:\s]+(.+)$/i\<close>\<close>
  "father_sameLine =
     seqs [alts [seqs [rstr_i ''Father'', rplus rspace, rstr_i ''Name''], rstr_i ''Father'',
                 seqs [rstr_i ''Husband'', rplus rspace, rstr_i ''Name''], rstr_i ''Husband'',
                 rstr_i ''S/O'', rstr_i ''D/O'', rstr_i ''W/O''],
           rplus colon_or_space, Grp 1 (rplus rany), Eol]"

definition differs_from_name :: "jsval \<Rightarrow> string \<Rightarrow> bool" where
  \<comment> \<open>\<^verbatim>\<open>!data.name || fatherName.toUpperCase() !== data.name.toUpperCase()\<close>\<close>
  "differs_from_name name fatherName =
     (case name of
        JStr n \<Rightarrow> n = [] \<or> toUpperCase fatherName \<noteq> toUpperCase n
      | _ \<Rightarrow> True)"

definition father_same :: "jsval \<Rightarrow> string \<Rightarrow> string option" where
  \<comment> \<open>lines 1099-1128\<close>
  "father_same name g =
     (let fatherName = collapse_spaces (trim g);
          fatherNameUpper = toUpperCase fatherName;
          containsExcluded = ends_excluded fatherNameUpper;
          isAnotherLabel = re_test (starts_with_any
             [''GENDER'', ''COUNTRY'', ''IDENTITY'', ''CNIC'', ''DATE'', ''BIRTH'', ''ISSUE'',
              ''EXPIRY'', ''NAME'']) fatherNameUpper
      in if length fatherName \<ge> 2 \<and> \<not> re_test starts_with_digit fatherName \<and>
            \<not> containsExcluded \<and> \<not> isAnotherLabel
         then (if differs_from_name name fatherName then Some (toUpperCase fatherName)
               else None)
         else None)"

definition father_next :: "jsval \<Rightarrow> string \<Rightarrow> string option" where
  \<comment> \<open>lines 1133-1161\<close>
  "father_next name l =
     (let fatherName = collapse_spaces (trim l);
          fatherNameUpper = toUpperCase fatherName;
          containsExcluded = short_excluded fatherNameUpper
      in if length fatherName \<ge> 2 \<and> \<not> re_test starts_with_digit fatherName \<and>
            \<not> containsExcluded \<and>
            \<not> re_test (starts_with_any
               [''GENDER'', ''COUNTRY'', ''IDENTITY'', ''CNIC'', ''DATE'', ''BIRTH'', ''ISSUE'',
                ''EXPIRY'', ''MALE'', ''FEMALE'', ''NAME'']) fatherNameUpper
         then (if differs_from_name name fatherName then Some (toUpperCase fatherName)
               else None)
         else None)"

definition nameLine_body :: "string list \<Rightarrow> string \<Rightarrow> nat \<Rightarrow> int \<Rightarrow> error + int step" where
  \<comment> \<open>lines 1170-1185\<close>
  "nameLine_body lines name i nameLineIndex =
     (case idx lines i of
        None \<Rightarrow> Inl TypeError
      | Some l \<Rightarrow>
          (let lineUpper = toUpperCase l;
               nameUpper = toUpperCase name
           in if str_includes lineUpper nameUpper \<or> str_includes nameUpper lineUpper \<or>
                 (length nameUpper > 5 \<and>
                  str_includes (substring lineUpper 0 (length nameUpper))
                               (substring nameUpper 0 5))
              then Inr (Break (int i)) else Inr (Continue nameLineIndex)))"

definition dash_class :: "char \<Rightarrow> bool" where
  \<comment> \<open>the ASCII members of \<^verbatim>\<open>[|\-_]\<close>; the source's class also lists the em
      dash, a character outside the modelled alphabet\<close>
  "dash_class c = (c = CHR ''|'' \<or> c = CHR ''-'' \<or> c = CHR ''_'')"

definition father_fallback_line :: "string \<Rightarrow> nat \<Rightarrow> string \<Rightarrow> (error + jsval) option" where
  \<comment> \<open>lines 1194-1265. The test \<^verbatim>\<open>letterCount >= line.length * 0.6\<close> is on
      integers times 5: for a length up to 35, the only lengths that reach it, the
      double product equals the exact one.\<close>
  "father_fallback_line name i l =
     (let line = trim l;
          lineUpper = toUpperCase line
      in if length line < 6 then None
         else if re_test (seqs [Bol, rstar (Chr (\<lambda>c. \<not> is_alpha c)), Eol]) line then None
         else
           (let containsExcluded = line_excluded lineUpper;
                isLabel = re_test (starts_with_any
                   [''GENDER'', ''COUNTRY'', ''IDENTITY'', ''CNIC'', ''DATE'', ''BIRTH'', ''ISSUE'',
                    ''EXPIRY'', ''MALE'', ''FEMALE'', ''NAME'']) lineUpper;
                hasNumbers = re_test (rrep 5 rdigit) line;
                letterCount = length (re_match_all (Chr is_alpha) line);
                hasEnoughLetters = (5 * letterCount \<ge> 3 * length line);
                hasSuspiciousPattern = re_test (seqs [Grp 1 rany, rmin 2 (BackRef 1)]) line;
                hasAllCapsShortWords =
                  re_test (seqs [WordB, rrange 1 2 (Chr is_upper), WordB]) line;
                words = filter (\<lambda>w. length w > 0) (split (rplus rspace) line);
                hasProperNameWord =
                  list_ex (\<lambda>word.
                     let cleanWord = re_replace_all (Chr (\<lambda>c. \<not> is_alpha c)) [] word
                     in length cleanWord \<ge> 3) words;
                wordCount = length words;
                isFatherNameLike =
                  (wordCount \<ge> 1 \<and> wordCount \<le> 4 \<and> length line \<ge> 8 \<and> length line \<le> 35 \<and>
                   \<not> re_test starts_with_digit line \<and> \<not> containsExcluded \<and> \<not> isLabel \<and>
                   \<not> hasNumbers \<and> hasEnoughLetters \<and>
                   \<not> re_test (seqs [Bol, rplus (Chr dash_class)]) line \<and>
                   \<not> re_test (seqs [Bol, rmin 2 (Chr (\<lambda>c. \<not> is_alpha c))]) line \<and>
                   \<not> hasSuspiciousPattern \<and> hasProperNameWord)
            in if isFatherNameLike then
                 (if toUpperCase line \<noteq> toUpperCase name then
                    (let cleanedFatherName = trim (collapse_spaces line);
                         cleanedFatherName = trim (re_replace
                            (seqs [rplus (Chr (\<lambda>c. dash_class c \<or> is_space c)), Eol]) []
                            cleanedFatherName);
                         cleanedFatherName = trim (re_replace
                            (seqs [Bol, rplus (Chr (\<lambda>c. dash_class c \<or> is_space c))]) []
                            cleanedFatherName)
                     in if length cleanedFatherName \<ge> 8 \<and>
                           re_test (rmin 3 (Chr is_alpha)) cleanedFatherName
                        then Some (Inr (JStr (toUpperCase cleanedFatherName))) else None)
                  else None)
               else None))"

definition father_fallback :: "string list \<Rightarrow> jsval \<Rightarrow> jsval \<Rightarrow> error + jsval" where
  \<comment> \<open>lines 1167-1267\<close>
  "father_fallback lines name v =
     (if \<not> truthy v \<and> truthy name \<and> length lines > 2 then
        (case name of
           JStr n \<Rightarrow>
             bindE (for_range 0 (length lines) (nameLine_body lines n) (- 1))
               (\<lambda>nameLineIndex.
                  let startIndex = (if nameLineIndex \<ge> 0 then nat nameLineIndex + 2 else 3)
                  in for_range startIndex (min (length lines) (startIndex + 6) - startIndex)
                       (line_body lines (father_fallback_line n)) v)
         | _ \<Rightarrow> Inl TypeError)
      else Inr v)"

definition countryKeywords :: "string list" where
  "countryKeywords =
     [''PAKISTAN'', ''PAK'', ''USA'', ''UNITED STATES'', ''UNITED STATES OF AMERICA'', ''UK'',
      ''UNITED KINGDOM'', ''CANADA'', ''AUSTRALIA'', ''INDIA'', ''CHINA'', ''GERMANY'', ''FRANCE'',
      ''ITALY'', ''SPAIN'', ''SAUDI ARABIA'', ''UAE'', ''UNITED ARAB EMIRATES'', ''BANGLADESH'',
      ''SRI LANKA'', ''AFGHANISTAN'', ''IRAN'', ''TURKEY'', ''EGYPT'', ''JAPAN'', ''SOUTH KOREA'',
      ''THAILAND'', ''MALAYSIA'', ''INDONESIA'', ''SINGAPORE'', ''PHILIPPINES'', ''VIETNAM'']"

function keyword_chars :: "string \<Rightarrow> regex" where
  \<comment> \<open>the keyword with each run of spaces turned into \<^verbatim>\<open>\s+\<close>\<close>
  "keyword_chars [] = Eps"
| "keyword_chars (x # xs) =
     (if is_space x then Seq (rplus rspace) (keyword_chars (dropWhile is_space xs))
      else Seq (rchar_i x) (keyword_chars xs))"
  by pat_completeness auto
termination
  by (relation "measure length") (auto simp: less_Suc_eq_le length_dropWhile_le)

definition keywordPattern :: "string \<Rightarrow> regex" where
  \<comment> \<open>\<^verbatim>\<open>new RegExp(`\\b${keyword.replace(/\s+/g, "\\s+")}\\b`, "i")\<close>\<close>
  "keywordPattern keyword = seqs [WordB, keyword_chars keyword, WordB]"

definition normalizeCountry :: "string \<Rightarrow> string" where
  \<comment> \<open>lines 1313-1323 and 1353-1363\<close>
  "normalizeCountry keyword =
     (if keyword = ''PAK'' then ''PAKISTAN''
      else if keyword = ''USA'' \<or> keyword = ''US'' then ''UNITED STATES''
      else if keyword = ''UK'' then ''UNITED KINGDOM''
      else if keyword = ''UAE'' then ''UNITED ARAB EMIRATES''
      else keyword)"

definition country_keywords :: "string \<Rightarrow> jsval \<Rightarrow> jsval" where
  \<comment> \<open>lines 1306-1326: the first keyword found in the text\<close>
  "country_keywords text v =
     (case find (\<lambda>keyword. re_test (keywordPattern keyword) text) countryKeywords of
        None \<Rightarrow> v
      | Some keyword \<Rightarrow> JStr (normalizeCountry keyword))"

definition country_tail :: "bool \<Rightarrow> regex" where
  \<comment> \<open>\<^verbatim>\<open>([A-Z\s]{2,}?)(?:\s+\d|$)\<close> under the flag \<^verbatim>\<open>i\<close>, with or without \<^verbatim>\<open>m\<close>\<close>
  "country_tail multiline =
     seqs [Grp 1 (rmin_lazy 2 (rcls_i (\<lambda>c. is_upper c \<or> is_space c))),
           Alt (seqs [rplus rspace, rdigit]) (if multiline then EolM else Eol)]"

definition countryPatterns :: "regex list" where
  \<comment> \<open>lines 1330-1335\<close>
  "countryPatterns =
     [seqs [alts [rstr_i ''Country'', rstr_i ''Nationality'',
                  seqs [rstr_i ''Country'', rplus rspace, rstr_i ''of'', rplus rspace,
                        rstr_i ''Birth''],
                  seqs [rstr_i ''Country'', rplus rspace, rstr_i ''Name''],
                  seqs [rstr_i ''Nationality'', rplus rspace, rstr_i ''Code'']],
            rplus colon_or_space, country_tail True],
      seqs [alts [seqs [rstr_i ''Issued'', rplus rspace, rstr_i ''in''],
                  seqs [rstr_i ''Issued'', rplus rspace, rstr_i ''by''],
                  seqs [rstr_i ''Place'', rplus rspace, rstr_i ''of'', rplus rspace,
                        rstr_i ''Issue'']],
            rplus colon_or_space, country_tail False]]"

fun country_patterns :: "string \<Rightarrow> regex list \<Rightarrow> jsval \<Rightarrow> jsval" where
  \<comment> \<open>lines 1337-1370: the loop over the patterns\<close>
  "country_patterns text [] v = v"
| "country_patterns text (pattern # ps) v =
     (case re_match pattern text of
        None \<Rightarrow> country_patterns text ps v
      | Some m \<Rightarrow>
          (case group m 1 of
             None \<Rightarrow> country_patterns text ps v
           | Some g \<Rightarrow>
               if g = [] then country_patterns text ps v
               else
                 (let country = toUpperCase (trim g);
                      matchedCountry =
                        find (\<lambda>keyword. str_includes country keyword \<or>
                                        str_includes keyword country \<or>
                                        str_includes (collapse_spaces country)
                                                     (collapse_spaces keyword))
                             countryKeywords
                  in case matchedCountry of
                       Some keyword \<Rightarrow> JStr (normalizeCountry keyword)
                     | None \<Rightarrow>
                         if length country \<ge> 3 \<and> \<not> re_test starts_with_digit country
                         then JStr country
                         else country_patterns text ps v)))"

definition country_last_resort :: "string \<Rightarrow> jsval \<Rightarrow> jsval" where
  \<comment> \<open>lines 1374-1380\<close>
  "country_last_resort text v =
     (if \<not> truthy v then
        (if re_test (seqs [WordB, rstr_i ''PAKISTAN'', WordB]) text then JStr ''PAKISTAN''
         else if re_test (seqs [WordB, rstr_i ''PAK'', WordB]) text \<and>
                 \<not> re_test (rstr_i ''PAKISTAN'') text
         then JStr ''PAKISTAN''
         else v)
      else v)"

definition addressPattern :: regex where
  \<comment> \<open>\<^verbatim>\<open>/(?:Address|Residence)[:\s]+(.+?)(?:\s+\d{5}|$)/i\<close>\<close>
  "addressPattern =
     seqs [Alt (rstr_i ''Address'') (rstr_i ''Residence''), rplus colon_or_space,
           Grp 1 (rplus_lazy rany), Alt (seqs [rplus rspace, rrep 5 rdigit]) Eol]"

definition address_block :: "string \<Rightarrow> jsval \<Rightarrow> jsval" where
  \<comment> \<open>lines 1383-1387\<close>
  "address_block normalizedText v =
     (case re_match addressPattern normalizedText of
        None \<Rightarrow> v
      | Some addressMatch \<Rightarrow>
          (case group addressMatch 1 of
             None \<Rightarrow> v
           | Some g \<Rightarrow> if g = [] then v else JStr (trim g)))"

definition extractCNICData :: "string \<Rightarrow> error + obj" where
  "extractCNICData text =
     (let data = [(''name'', JNull), (''fatherName'', JNull), (''country'', JNull),
                  (''cnicNumber'', JNull), (''dateOfBirth'', JNull), (''dateOfIssue'', JNull),
                  (''dateOfExpiry'', JNull), (''gender'', JNull), (''address'', JNull),
                  (''rawText'', JStr text)];
          normalizedText = normalize text
      in
      bindE (cnicNumber_block normalizedText (get data ''cnicNumber'')) (\<lambda>v.
      let data = set_key ''cnicNumber'' v data;
          dates = re_match_all datePattern normalizedText;
          data = set_key ''dateOfBirth''
                   (date_block dobPattern normalizedText dates 0 (get data ''dateOfBirth'')) data;
          data = set_key ''dateOfIssue''
                   (date_block issuePattern normalizedText dates 1 (get data ''dateOfIssue'')) data;
          data = set_key ''dateOfExpiry''
                   (date_block expiryPattern normalizedText dates 2 (get data ''dateOfExpiry''))
                   data
      in
      bindE (gender_block normalizedText (get data ''gender'')) (\<lambda>v.
      let data = set_key ''gender'' v data;
          lines = text_lines text
      in
      bindE (label_loop lines isNameLabel name_sameLine name_same name_next
               (get data ''name'')) (\<lambda>v.
      let data = set_key ''name'' v data in
      bindE (name_fallback lines (get data ''name'')) (\<lambda>v.
      let data = set_key ''name'' v data in
      bindE (label_loop lines isFatherNameLabel father_sameLine
               (father_same (get data ''name'')) (father_next (get data ''name''))
               (get data ''fatherName'')) (\<lambda>v.
      let data = set_key ''fatherName'' v data in
      bindE (father_fallback lines (get data ''name'') (get data ''fatherName'')) (\<lambda>v.
      let data = set_key ''fatherName'' v data;
          data = set_key ''country'' (country_keywords text (get data ''country'')) data;
          data = set_key ''country''
                   (if \<not> truthy (get data ''country'')
                    then country_patterns text countryPatterns (get data ''country'')
                    else get data ''country'') data;
          data = set_key ''country'' (country_last_resort text (get data ''country'')) data;
          data = set_key ''address'' (address_block normalizedText (get data ''address'')) data
      in Inr data)))))))"

section \<open>extractPassportData (ocrService.js, lines 1395-2122)\<close>

definition mrz_apply :: "obj option \<Rightarrow> string \<Rightarrow> obj \<Rightarrow> obj" where
  \<comment> \<open>\<^verbatim>\<open>if (mrzData.key) data.key = mrzData.key;\<close> inside \<^verbatim>\<open>if (mrzData)\<close>\<close>
  "mrz_apply mrzData key data =
     (case mrzData of
        None \<Rightarrow> data
      | Some m \<Rightarrow> if truthy (get m key) then set_key key (get m key) data else data)"

definition has_digit :: regex where
  \<comment> \<open>\<^verbatim>\<open>/\d/\<close>\<close>
  "has_digit = rdigit"

definition months :: "string list" where
  "months = [''JAN'', ''FEB'', ''MAR'', ''APR'', ''MAY'', ''JUN'', ''JUL'', ''AUG'', ''SEP'', ''OCT'',
             ''NOV'', ''DEC'']"

definition month_name :: regex where
  \<comment> \<open>\<^verbatim>\<open>JAN|FEB|MAR|APR|MAY|JUN|JUL|AUG|SEP|OCT|NOV|DEC\<close> under the flag \<^verbatim>\<open>i\<close>\<close>
  "month_name = alts (map rstr_i months)"

definition month_date :: regex where
  \<comment> \<open>\<^verbatim>\<open>\d{1,2}\s+(?:JAN|...|DEC)\s+\d{4}\<close> under the flag \<^verbatim>\<open>i\<close>\<close>
  "month_date = seqs [rrange 1 2 rdigit, rplus rspace, month_name, rplus rspace, rrep 4 rdigit]"

definition label_value :: "regex \<Rightarrow> regex" where
  \<comment> \<open>\<^verbatim>\<open>/LABEL[:\s]+(.+)$/i\<close>\<close>
  "label_value label = seqs [label, rplus colon_or_space, Grp 1 (rplus rany), Eol]"

fun words_i :: "string list \<Rightarrow> regex" where
  \<comment> \<open>words separated by \<^verbatim>\<open>\s+\<close>, under the flag \<^verbatim>\<open>i\<close>\<close>
  "words_i [] = Eps"
| "words_i [w] = rstr_i w"
| "words_i (w # ws) = seqs [rstr_i w, rplus rspace, words_i ws]"

definition passportNumber_same :: "string \<Rightarrow> string option" where
  \<comment> \<open>lines 1445-1449\<close>
  "passportNumber_same g =
     (let passportNumber = trim g
      in if length passportNumber \<ge> 6 \<and> length passportNumber \<le> 12
         then Some (toUpperCase passportNumber) else None)"

definition passportNumber_next :: "string \<Rightarrow> string option" where
  \<comment> \<open>lines 1454-1462\<close>
  "passportNumber_next l =
     (let passportNumber = trim l
      in if length passportNumber \<ge> 6 \<and> length passportNumber \<le> 12 \<and>
            re_test (seqs [Bol, rplus (Chr (\<lambda>c. is_upper c \<or> is_digit c)), Eol]) passportNumber
         then Some (toUpperCase passportNumber) else None)"

definition passportNumber_label :: "string list \<Rightarrow> jsval \<Rightarrow> error + jsval" where
  \<comment> \<open>lines 1437-1465\<close>
  "passportNumber_label lines v =
     label_loop lines
       (\<lambda>lineUpper. str_includes lineUpper ''PASSPORT'' \<and> str_includes lineUpper ''NUMBER'')
       (label_value (words_i [''Passport'', ''Number'']))
       passportNumber_same passportNumber_next v"

definition passportPattern :: regex where
  \<comment> \<open>\<^verbatim>\<open>/(?:Passport|P\s*No|Passport\s*No)[:\s]*([A-Z0-9]{6,12})/i\<close>\<close>
  "passportPattern =
     seqs [alts [rstr_i ''Passport'',
                 seqs [rstr_i ''P'', rstar rspace, rstr_i ''No''],
                 seqs [rstr_i ''Passport'', rstar rspace, rstr_i ''No'']],
           rstar colon_or_space,
           Grp 1 (rrange 6 12 (rcls_i (\<lambda>c. is_upper c \<or> is_digit c)))]"

definition passportNumber_line :: "nat \<Rightarrow> string \<Rightarrow> (error + jsval) option" where
  \<comment> \<open>lines 1480-1485, with \<^verbatim>\<open>/\b([A-Z]{2}\d{7,8})\b/\<close>\<close>
  "passportNumber_line i line =
     (case re_match (seqs [WordB, Grp 1 (seqs [rrep 2 (Chr is_upper), rrange 7 8 rdigit]),
                           WordB]) line of
        None \<Rightarrow> None
      | Some passportMatch \<Rightarrow>
          (case group passportMatch 1 of
             None \<Rightarrow> Some (Inl TypeError)
           | Some g \<Rightarrow> Some (Inr (JStr (toUpperCase g)))))"

definition passportNumber_fallback :: "string \<Rightarrow> string list \<Rightarrow> jsval \<Rightarrow> error + jsval" where
  \<comment> \<open>lines 1468-1488\<close>
  "passportNumber_fallback normalizedText lines v =
     (if \<not> truthy v then
        bindE (case re_match passportPattern normalizedText of
                 None \<Rightarrow> Inr v
               | Some passportMatch \<Rightarrow>
                   (case group passportMatch 1 of
                      None \<Rightarrow> Inl TypeError
                    | Some g \<Rightarrow> Inr (JStr (toUpperCase g))))
          (\<lambda>v. if \<not> truthy v then line_loop lines passportNumber_line v else Inr v)
      else Inr v)"

definition digit_value :: "string \<Rightarrow> string option" where
  \<comment> \<open>the trimmed value when it holds a digit, in upper case: lines 1499-1503,
      1508-1512, 1566-1570, 1575-1579, 1948-1952 and 1957-1961\<close>
  "digit_value s =
     (let d = trim s in if re_test has_digit d then Some (toUpperCase d) else None)"

definition dateOfBirth_label :: "string list \<Rightarrow> jsval \<Rightarrow> error + jsval" where
  \<comment> \<open>lines 1491-1515\<close>
  "dateOfBirth_label lines v =
     label_loop lines
       (\<lambda>lineUpper. str_includes lineUpper ''DATE'' \<and> str_includes lineUpper ''BIRTH'')
       (label_value (words_i [''Date'', ''of'', ''Birth'']))
       digit_value digit_value v"

definition fix_day :: "string \<Rightarrow> string \<Rightarrow> string" where
  \<comment> \<open>lines 1529-1541 and 1597-1608: the repair of a misread day, with the default
      of the block\<close>
  "fix_day dflt day0 =
     (let dayLower = toLowerCase day0;
          day = (if dayLower = ''lo'' \<or> dayLower = ''io'' \<or> dayLower = ''1o'' then ''10''
                 else day0);
          day = (if dayLower = ''o1'' \<or> dayLower = ''01'' then ''01'' else day);
          day = (if dayLower = ''o2'' \<or> dayLower = ''02'' then ''02'' else day)
      in if \<not> re_test (seqs [Bol, rrange 1 2 rdigit, Eol]) day then
           (case re_match has_digit day of
              Some digitMatch \<Rightarrow> padStart (fst digitMatch) 2 CHR ''0''
            | None \<Rightarrow> dflt)
         else day)"

definition day_month_year :: "regex \<Rightarrow> regex" where
  \<comment> \<open>\<^verbatim>\<open>PREFIX(\d{1,2}|[a-z]{2})\s+(JAN|...|DEC)\s+(\d{4})\<close> under the flag \<^verbatim>\<open>i\<close>\<close>
  "day_month_year prefix =
     seqs [prefix, Grp 1 (Alt (rrange 1 2 rdigit) (rrep 2 (rcls_i is_lower))), rplus rspace,
           Grp 2 month_name, rplus rspace, Grp 3 (rrep 4 rdigit)]"

definition date_of_match :: "string \<Rightarrow> (string \<times> caps) \<Rightarrow> error + string" where
  \<comment> \<open>the date written from the groups of a match of \<open>day_month_year\<close>\<close>
  "date_of_match dflt dateMatch =
     (case group dateMatch 1 of
        None \<Rightarrow> Inl TypeError
      | Some g1 \<Rightarrow>
          (case group dateMatch 2 of
             None \<Rightarrow> Inl TypeError
           | Some g2 \<Rightarrow>
               (let day = fix_day dflt g1;
                    month = toUpperCase g2;
                    year = (case group dateMatch 3 of None \<Rightarrow> ''undefined'' | Some g3 \<Rightarrow> g3)
                in Inr (padStart day 2 CHR ''0'' @ '' '' @ month @ '' '' @ year))))"

definition cnic_dashed :: regex where
  \<comment> \<open>\<^verbatim>\<open>\d{5}-\d{7}-\d{1}\<close>\<close>
  "cnic_dashed = seqs [rrep 5 rdigit, rchar CHR ''-'', rrep 7 rdigit, rchar CHR ''-'',
                       rrep 1 rdigit]"

definition dateOfBirth_line :: "nat \<Rightarrow> string \<Rightarrow> (error + jsval) option" where
  \<comment> \<open>lines 1520-1550\<close>
  "dateOfBirth_line i l =
     (let line = trim l;
          lineUpper = toUpperCase line
      in case re_match (day_month_year (ropt (Seq (ropt (rchar CHR ''-'')) (rstar rspace))))
                line of
           None \<Rightarrow> None
         | Some dateMatch \<Rightarrow>
             (case date_of_match ''10'' dateMatch of
                Inl e \<Rightarrow> Some (Inl e)
              | Inr date \<Rightarrow>
                  if re_test cnic_dashed line \<or> re_test (rrep 13 rdigit) line
                  then Some (Inr (JStr date)) else None))"

definition dateOfBirth_fallback :: "string list \<Rightarrow> jsval \<Rightarrow> error + jsval" where
  \<comment> \<open>lines 1518-1552\<close>
  "dateOfBirth_fallback lines v =
     (if \<not> truthy v then line_loop lines dateOfBirth_line v else Inr v)"

definition dateOfExpiry_label :: "string list \<Rightarrow> jsval \<Rightarrow> error + jsval" where
  \<comment> \<open>lines 1555-1582\<close>
  "dateOfExpiry_label lines v =
     label_loop lines
       (\<lambda>lineUpper. str_includes lineUpper ''DATE'' \<and>
                     (str_includes lineUpper ''EXPIRY'' \<or> str_includes lineUpper ''EXPIR''))
       (label_value (words_i [''Date'', ''of'', ''Expiry'']))
       digit_value digit_value v"

definition dateOfExpiry_line :: "nat \<Rightarrow> string \<Rightarrow> (error + jsval) option" where
  \<comment> \<open>lines 1588-1617\<close>
  "dateOfExpiry_line i l =
     (let line = trim l;
          lineUpper = toUpperCase line
      in case re_match (day_month_year (rstar_lazy (Chr (\<lambda>c. \<not> is_digit c)))) line of
           None \<Rightarrow> None
         | Some dateMatch \<Rightarrow>
             if \<not> str_includes lineUpper ''BIRTH'' then
               (case date_of_match ''01'' dateMatch of
                  Inl e \<Rightarrow> Some (Inl e)
                | Inr date \<Rightarrow>
                    if re_test (rrange 10 12 rdigit) line then Some (Inr (JStr date))
                    else None)
             else None)"

definition dateOfExpiry_fallback :: "string list \<Rightarrow> jsval \<Rightarrow> error + jsval" where
  \<comment> \<open>lines 1586-1619\<close>
  "dateOfExpiry_fallback lines v =
     (if \<not> truthy v then line_loop lines dateOfExpiry_line v else Inr v)"

definition birth_label :: regex where
  \<comment> \<open>\<^verbatim>\<open>(?:DOB|Date\s+of\s+Birth|Birth)[:\s]*\<close>\<close>
  "birth_label =
     seqs [alts [rstr_i ''DOB'', words_i [''Date'', ''of'', ''Birth''], rstr_i ''Birth''],
           rstar colon_or_space]"

definition expiry_label :: regex where
  \<comment> \<open>\<^verbatim>\<open>(?:DOE|Date\s+of\s+Expiry|Expiry|Valid\s+Until)[:\s]*\<close>\<close>
  "expiry_label =
     seqs [alts [rstr_i ''DOE'', words_i [''Date'', ''of'', ''Expiry''], rstr_i ''Expiry'',
                 words_i [''Valid'', ''Until'']],
           rstar colon_or_space]"

fun first_pattern :: "string \<Rightarrow> regex list \<Rightarrow> jsval \<Rightarrow> jsval" where
  \<comment> \<open>lines 1647-1653 and 1658-1664: \<^verbatim>\<open>if (match && match[1] && !data.f)
      { data.f = match[1].trim(); break; }\<close> for each pattern\<close>
  "first_pattern normalizedText [] v = v"
| "first_pattern normalizedText (pattern # ps) v =
     (case re_match pattern normalizedText of
        None \<Rightarrow> first_pattern normalizedText ps v
      | Some m \<Rightarrow>
          (case group m 1 of
             None \<Rightarrow> first_pattern normalizedText ps v
           | Some g \<Rightarrow>
               if g \<noteq> [] \<and> \<not> truthy v then JStr (trim g)
               else first_pattern normalizedText ps v))"

definition dates_fallback :: "string \<Rightarrow> jsval \<times> jsval \<Rightarrow> jsval \<times> jsval" where
  \<comment> \<open>lines 1622-1668, on the pair of \<^verbatim>\<open>data.dateOfBirth\<close> and
      \<^verbatim>\<open>data.dateOfExpiry\<close>\<close>
  "dates_fallback normalizedText be =
     (case be of (dateOfBirth, dateOfExpiry) \<Rightarrow>
        if \<not> truthy dateOfBirth \<or> \<not> truthy dateOfExpiry then
          (let dates = re_match_all (Grp 1 month_date) normalizedText @
                       re_match_all (Grp 1 numeric_date) normalizedText;
               dobPatterns = [Seq birth_label (Grp 1 month_date),
                              Seq birth_label (Grp 1 numeric_date)];
               expiryPatterns = [Seq expiry_label (Grp 1 month_date),
                                 Seq expiry_label (Grp 1 numeric_date)];
               dateOfBirth = first_pattern normalizedText dobPatterns dateOfBirth;
               dateOfBirth = (if \<not> truthy dateOfBirth \<and> length dates \<ge> 1
                              then js_of (idx dates 0) else dateOfBirth);
               dateOfExpiry = first_pattern normalizedText expiryPatterns dateOfExpiry;
               dateOfExpiry = (if \<not> truthy dateOfExpiry \<and> length dates \<ge> 2
                               then js_of (idx dates 1) else dateOfExpiry)
           in (dateOfBirth, dateOfExpiry))
        else (dateOfBirth, dateOfExpiry))"

definition min_length_value :: "nat \<Rightarrow> string \<Rightarrow> string option" where
  \<comment> \<open>the trimmed value when it is long enough, in upper case: lines 1686-1690,
      1827-1831, 1836-1840 and 1975-1979\<close>
  "min_length_value n s =
     (let value = trim s in if length value \<ge> n then Some (toUpperCase value) else None)"

definition name_value :: "nat \<Rightarrow> string \<Rightarrow> string option" where
  \<comment> \<open>the trimmed value when it is long enough and starts with no digit, in upper
      case: lines 1695-1699, 1727-1731 and 1984-1988\<close>
  "name_value n s =
     (let value = trim s
      in if length value \<ge> n \<and> \<not> re_test starts_with_digit value
         then Some (toUpperCase value) else None)"

definition nationality_label :: "string list \<Rightarrow> jsval \<Rightarrow> error + jsval" where
  \<comment> \<open>lines 1678-1702\<close>
  "nationality_label lines v =
     label_loop lines
       (\<lambda>lineUpper. str_includes lineUpper ''NATIONALITY'' \<and> \<not> str_includes lineUpper ''NUMBER'')
       (label_value (rstr_i ''Nationality''))
       (min_length_value 3) (name_value 3) v"

definition nationality_line :: "nat \<Rightarrow> string \<Rightarrow> (error + jsval) option" where
  \<comment> \<open>lines 1707-1711\<close>
  "nationality_line i l =
     (let lineUpper = toUpperCase l
      in if str_includes lineUpper ''PAKISTANI'' then Some (Inr (JStr ''PAKISTANI'')) else None)"

definition nationality_fallback :: "string list \<Rightarrow> jsval \<Rightarrow> error + jsval" where
  \<comment> \<open>lines 1705-1713\<close>
  "nationality_fallback lines v =
     (if \<not> truthy v then line_loop lines nationality_line v else Inr v)"

definition surname_next :: "string \<Rightarrow> string option" where
  \<comment> \<open>lines 1736-1744\<close>
  "surname_next l =
     (let surname = trim l
      in if length surname \<ge> 2 \<and> \<not> re_test starts_with_digit surname \<and>
            \<not> str_includes (toUpperCase surname) ''GIVEN''
         then Some (toUpperCase surname) else None)"

definition surname_label :: "string list \<Rightarrow> jsval \<Rightarrow> error + jsval" where
  \<comment> \<open>lines 1716-1747, with \<^verbatim>\<open>/(?:Sur\s*)?Name[:\s]+(.+)$/i\<close>\<close>
  "surname_label lines v =
     label_loop lines
       (\<lambda>lineUpper. (str_includes lineUpper ''SURNAME'' \<or> str_includes lineUpper ''SUR NAME'') \<and>
                     \<not> str_includes lineUpper ''GIVEN'')
       (label_value (Seq (ropt (Seq (rstr_i ''Sur'') (rstar rspace))) (rstr_i ''Name'')))
       (name_value 2) surname_next v"

definition givenNames_same :: "string \<Rightarrow> string option" where
  \<comment> \<open>lines 1758-1764\<close>
  "givenNames_same g =
     (let givenNames = collapse_spaces (trim g)
      in if length givenNames \<ge> 2 \<and> \<not> re_test starts_with_digit givenNames
         then Some (toUpperCase givenNames) else None)"

definition givenNames_next :: "string \<Rightarrow> string option" where
  \<comment> \<open>lines 1769-1779\<close>
  "givenNames_next l =
     (let givenNames = collapse_spaces (trim l)
      in if length givenNames \<ge> 2 \<and> \<not> re_test starts_with_digit givenNames \<and>
            \<not> str_includes (toUpperCase givenNames) ''NATIONALITY''
         then Some (toUpperCase givenNames) else None)"

definition givenNames_label :: "string list \<Rightarrow> jsval \<Rightarrow> error + jsval" where
  \<comment> \<open>lines 1750-1782, with \<^verbatim>\<open>/Given\s+Names?[:\s]+(.+)$/i\<close>\<close>
  "givenNames_label lines v =
     label_loop lines
       (\<lambda>lineUpper. str_includes lineUpper ''GIVEN'' \<and> str_includes lineUpper ''NAME'')
       (label_value (seqs [words_i [''Given'', ''Name''], ropt (rchar_i CHR ''s'')]))
       givenNames_same givenNames_next v"

definition givenNames_line :: "nat \<Rightarrow> string \<Rightarrow> (error + jsval) option" where
  \<comment> \<open>lines 1787-1814\<close>
  "givenNames_line i l =
     (let line = trim l;
          lineUpper = toUpperCase line
      in if str_includes lineUpper ''PASSPORT'' \<and> \<not> str_includes lineUpper ''NUMBER'' then
           (case re_match (seqs [rstr_i ''PASSPORT'', rplus rspace,
                                 Grp 1 (rrange 3 40 (rcls_i (\<lambda>c. is_upper c \<or> is_space c)))])
                    line of
              None \<Rightarrow> None
            | Some nameMatch \<Rightarrow>
                (case group nameMatch 1 of
                   None \<Rightarrow> None
                 | Some g \<Rightarrow>
                     if g = [] then None
                     else
                       (let givenNames = trim g;
                            givenNames = trim (re_replace
                               (seqs [rplus rspace, rcls_i is_lower, rstar rspace, Eol]) []
                               givenNames);
                            givenNames = trim (re_replace
                               (seqs [rplus rspace, rcls_i is_lower, rplus rspace, rcls_i is_lower,
                                      rstar rspace, Eol]) []
                               givenNames);
                            givenNames = collapse_spaces givenNames
                        in if length givenNames \<ge> 3 \<and>
                              \<not> str_includes (toUpperCase givenNames) ''PAKISTAN'' \<and>
                              \<not> str_includes (toUpperCase givenNames) ''NUMBER'' \<and>
                              length (split (rplus rspace) givenNames) \<ge> 1 \<and>
                              length (split (rplus rspace) givenNames) \<le> 4
                           then Some (Inr (JStr (toUpperCase givenNames))) else None)))
         else None)"

definition givenNames_fallback :: "string list \<Rightarrow> jsval \<Rightarrow> error + jsval" where
  \<comment> \<open>lines 1785-1816\<close>
  "givenNames_fallback lines v =
     (if \<not> truthy v then line_loop lines givenNames_line v else Inr v)"

definition placeOfBirth_label :: "string list \<Rightarrow> jsval \<Rightarrow> error + jsval" where
  \<comment> \<open>lines 1819-1843\<close>
  "placeOfBirth_label lines v =
     label_loop lines
       (\<lambda>lineUpper. str_includes lineUpper ''PLACE'' \<and> str_includes lineUpper ''BIRTH'')
       (label_value (words_i [''Place'', ''of'', ''Birth'']))
       (min_length_value 3) (min_length_value 3) v"

definition placeOfBirth_line :: "nat \<Rightarrow> string \<Rightarrow> (error + jsval) option" where
  \<comment> \<open>lines 1848-1861, with \<^verbatim>\<open>/([A-Z\s]{3,20}),\s*PAK/i\<close> and \<^verbatim>\<open>/Fy\s+/i\<close>\<close>
  "placeOfBirth_line i l =
     (let line = trim l;
          lineUpper = toUpperCase line
      in case re_match (seqs [Grp 1 (rrange 3 20 (rcls_i (\<lambda>c. is_upper c \<or> is_space c))),
                              rchar CHR '','', rstar rspace, rstr_i ''PAK'']) line of
           None \<Rightarrow> None
         | Some placeMatch \<Rightarrow>
             (case group placeMatch 1 of
                None \<Rightarrow> Some (Inl TypeError)
              | Some g \<Rightarrow>
                  (let place = trim g;
                       place = re_replace (seqs [rstr_i ''Fy'', rplus rspace]) [] place
                   in if length place \<ge> 3 \<and> length place \<le> 30
                      then Some (Inr (JStr (toUpperCase place @ '', PAK''))) else None)))"

definition placeOfBirth_fallback :: "string list \<Rightarrow> jsval \<Rightarrow> error + jsval" where
  \<comment> \<open>lines 1846-1863\<close>
  "placeOfBirth_fallback lines v =
     (if \<not> truthy v then line_loop lines placeOfBirth_line v else Inr v)"

definition fatherName_value :: "string \<Rightarrow> string option" where
  \<comment> \<open>lines 1877-1883 and 1888-1894\<close>
  "fatherName_value s =
     (let fatherName = collapse_spaces (trim s)
      in if length fatherName \<ge> 2 \<and> \<not> re_test starts_with_digit fatherName
         then Some (toUpperCase fatherName) else None)"

definition fatherName_label :: "string list \<Rightarrow> jsval \<Rightarrow> error + jsval" where
  \<comment> \<open>lines 1866-1897\<close>
  "fatherName_label lines v =
     label_loop lines
       (\<lambda>lineUpper. (str_includes lineUpper ''FATHER'' \<and> str_includes lineUpper ''NAME'') \<or>
                     (str_includes lineUpper ''FATHER'' \<and> \<not> str_includes lineUpper ''HUSBAND''))
       (label_value (words_i [''Father'', ''Name'']))
       fatherName_value fatherName_value v"

definition fatherName_line :: "nat \<Rightarrow> string \<Rightarrow> (error + jsval) option" where
  \<comment> \<open>lines 1902-1930, with \<^verbatim>\<open>/^[A-Z][A-Z\s,]{5,40}$/\<close>, \<^verbatim>\<open>/^[a-z]\s+/i\<close> and
      \<^verbatim>\<open>/^[a-z]{1,2}\s+/i\<close>\<close>
  "fatherName_line i l =
     (let line = trim l;
          lineUpper = toUpperCase line
      in if str_includes line '','' \<and>
            re_test (seqs [Bol, Chr is_upper,
                           rrange 5 40 (Chr (\<lambda>c. is_upper c \<or> is_space c \<or> c = CHR '','')),
                           Eol]) line \<and>
            \<not> str_includes lineUpper ''PAKISTAN'' \<and> \<not> str_includes lineUpper ''SIALKOT'' \<and>
            \<not> str_includes lineUpper ''LAHORE'' \<and> \<not> str_includes lineUpper ''KARACHI'' \<and>
            length (split (rstr '','') line) = 2
         then
           (let fatherName = trim (re_replace (seqs [Bol, rcls_i is_lower, rplus rspace]) [] line);
                fatherName = trim (re_replace
                   (seqs [Bol, rrange 1 2 (rcls_i is_lower), rplus rspace]) [] fatherName);
                fatherName = collapse_spaces fatherName
            in if str_includes fatherName '','' \<and> length fatherName \<ge> 5 \<and>
                  length fatherName \<le> 50
               then Some (Inr (JStr (toUpperCase fatherName))) else None)
         else None)"

definition fatherName_fallback :: "string list \<Rightarrow> jsval \<Rightarrow> error + jsval" where
  \<comment> \<open>lines 1900-1932\<close>
  "fatherName_fallback lines v =
     (if \<not> truthy v then line_loop lines fatherName_line v else Inr v)"

definition dateOfIssue_label :: "string list \<Rightarrow> jsval \<Rightarrow> error + jsval" where
  \<comment> \<open>lines 1935-1964, with \<^verbatim>\<open>/Date\s+of\s+(?:Issue|Issuance)[:\s]+(.+)$/i\<close>\<close>
  "dateOfIssue_label lines v =
     label_loop lines
       (\<lambda>lineUpper. (str_includes lineUpper ''DATE'' \<and> str_includes lineUpper ''ISSUE'') \<or>
                     (str_includes lineUpper ''DATE'' \<and> str_includes lineUpper ''ISSUANCE''))
       (label_value (seqs [rstr_i ''Date'', rplus rspace, rstr_i ''of'', rplus rspace,
                           Alt (rstr_i ''Issue'') (rstr_i ''Issuance'')]))
       digit_value digit_value v"

definition issuingAuthority_label :: "string list \<Rightarrow> jsval \<Rightarrow> error + jsval" where
  \<comment> \<open>lines 1967-1991\<close>
  "issuingAuthority_label lines v =
     label_loop lines
       (\<lambda>lineUpper. str_includes lineUpper ''ISSUING'' \<and> str_includes lineUpper ''AUTHORITY'')
       (label_value (words_i [''Issuing'', ''Authority'']))
       (min_length_value 3) (name_value 3) v"

definition issuingAuthority_line :: "nat \<Rightarrow> string \<Rightarrow> (error + jsval) option" where
  \<comment> \<open>lines 1996-2005\<close>
  "issuingAuthority_line i l =
     (let lineUpper = toUpperCase l
      in if str_includes lineUpper ''PAKISTAN'' \<and>
            (str_includes lineUpper ''AUTHORITY'' \<or> str_includes lineUpper ''ISSUING'' \<or> i > 5)
         then Some (Inr (JStr ''PAKISTAN'')) else None)"

definition issuingAuthority_fallback :: "string list \<Rightarrow> jsval \<Rightarrow> error + jsval" where
  \<comment> \<open>lines 1994-2007\<close>
  "issuingAuthority_fallback lines v =
     (if \<not> truthy v then line_loop lines issuingAuthority_line v else Inr v)"

definition trackingNumber_same :: "string \<Rightarrow> string option" where
  \<comment> \<open>lines 2018-2022\<close>
  "trackingNumber_same g =
     (let trackingNumber = trim g
      in if length trackingNumber \<ge> 5 then Some trackingNumber else None)"

definition trackingNumber_next :: "string \<Rightarrow> string option" where
  \<comment> \<open>lines 2027-2031\<close>
  "trackingNumber_next l =
     (let trackingNumber = trim l
      in if length trackingNumber \<ge> 5 \<and>
            re_test (seqs [Bol, rplus rdigit, Eol]) trackingNumber
         then Some trackingNumber else None)"

definition trackingNumber_label :: "string list \<Rightarrow> jsval \<Rightarrow> error + jsval" where
  \<comment> \<open>lines 2010-2034\<close>
  "trackingNumber_label lines v =
     label_loop lines
       (\<lambda>lineUpper. str_includes lineUpper ''TRACKING'' \<and> str_includes lineUpper ''NUMBER'')
       (label_value (words_i [''Tracking'', ''Number'']))
       trackingNumber_same trackingNumber_next v"

definition trackingNumber_line :: "nat \<Rightarrow> string \<Rightarrow> (error + jsval) option" where
  \<comment> \<open>lines 2039-2054, with \<^verbatim>\<open>/\b(\d{10,12})\b/\<close> and \<^verbatim>\<open>/\d{4}$/\<close>\<close>
  "trackingNumber_line i l =
     (let line = trim l
      in case re_match (seqs [WordB, Grp 1 (rrange 10 12 rdigit), WordB]) line of
           None \<Rightarrow> None
         | Some trackingMatch \<Rightarrow>
             (case group trackingMatch 1 of
                None \<Rightarrow> Some (Inl TypeError)
              | Some num \<Rightarrow>
                  if \<not> re_test (seqs [rrep 4 rdigit, Eol]) num \<or>
                     (length num = 11 \<and> \<not> re_test cnic_dashed num)
                  then Some (Inr (JStr num)) else None))"

definition trackingNumber_fallback :: "string list \<Rightarrow> jsval \<Rightarrow> error + jsval" where
  \<comment> \<open>lines 2037-2056\<close>
  "trackingNumber_fallback lines v =
     (if \<not> truthy v then line_loop lines trackingNumber_line v else Inr v)"

definition citizenshipNumber_value :: "string \<Rightarrow> string option" where
  \<comment> \<open>lines 2067-2071 and 2076-2080\<close>
  "citizenshipNumber_value s =
     (let citizenshipNumber = trim s
      in if re_test has_digit citizenshipNumber then Some citizenshipNumber else None)"

definition citizenshipNumber_label :: "string list \<Rightarrow> jsval \<Rightarrow> error + jsval" where
  \<comment> \<open>lines 2059-2083\<close>
  "citizenshipNumber_label lines v =
     label_loop lines
       (\<lambda>lineUpper. str_includes lineUpper ''CITIZENSHIP'' \<and> str_includes lineUpper ''NUMBER'')
       (label_value (words_i [''Citizenship'', ''Number'']))
       citizenshipNumber_value citizenshipNumber_value v"

definition citizenshipNumber_line :: "nat \<Rightarrow> string \<Rightarrow> (error + jsval) option" where
  \<comment> \<open>lines 2088-2107, with \<^verbatim>\<open>/(\d{5}-\d{7}-\d{1})/\<close> and \<^verbatim>\<open>/\b(\d{13})\b/\<close>\<close>
  "citizenshipNumber_line i l =
     (let line = trim l
      in case re_match (Grp 1 cnic_dashed) line of
           Some cnicMatch \<Rightarrow> Some (Inr (js_of (group cnicMatch 1)))
         | None \<Rightarrow>
             (case re_match (seqs [WordB, Grp 1 (rrep 13 rdigit), WordB]) line of
                None \<Rightarrow> None
              | Some cnicMatch2 \<Rightarrow>
                  (case group cnicMatch2 1 of
                     None \<Rightarrow> Some (Inl TypeError)
                   | Some cnic \<Rightarrow> Some (Inr (JStr (formatCnic cnic))))))"

definition citizenshipNumber_fallback :: "string list \<Rightarrow> jsval \<Rightarrow> error + jsval" where
  \<comment> \<open>lines 2086-2109\<close>
  "citizenshipNumber_fallback lines v =
     (if \<not> truthy v then line_loop lines citizenshipNumber_line v else Inr v)"

definition dateOfIssue_fallback :: "string \<Rightarrow> jsval \<Rightarrow> error + jsval" where
  \<comment> \<open>lines 2112-2119, with
      \<^verbatim>\<open>/(?:DOI|Date\s+of\s+Issue|Date\s+of\s+Issuance|Issue)[:\s]*(\d{1,2}\s+(?:JAN|...|DEC)\s+\d{4})/i\<close>\<close>
  "dateOfIssue_fallback normalizedText v =
     (if \<not> truthy v then
        (case re_match
                (seqs [alts [rstr_i ''DOI'', words_i [''Date'', ''of'', ''Issue''],
                             words_i [''Date'', ''of'', ''Issuance''], rstr_i ''Issue''],
                       rstar colon_or_space, Grp 1 month_date]) normalizedText of
           None \<Rightarrow> Inr v
         | Some issueMatch \<Rightarrow>
             (case group issueMatch 1 of
                None \<Rightarrow> Inl TypeError
              | Some g \<Rightarrow> Inr (JStr (trim g))))
      else Inr v)"

definition passport_init :: "string \<Rightarrow> obj" where
  \<comment> \<open>lines 1396-1412\<close>
  "passport_init text =
     [(''passportNumber'', JNull), (''surname'', JNull), (''givenNames'', JNull),
      (''nationality'', JNull), (''dateOfBirth'', JNull), (''placeOfBirth'', JNull),
      (''gender'', JNull), (''dateOfIssue'', JNull), (''dateOfExpiry'', JNull),
      (''issuingAuthority'', JNull), (''husbandName'', JNull), (''fatherName'', JNull),
      (''citizenshipNumber'', JNull), (''trackingNumber'', JNull), (''rawText'', JStr text)]"

definition mrz_fields_applied :: "string list" where
  \<comment> \<open>lines 1416-1424\<close>
  "mrz_fields_applied =
     [''passportNumber'', ''surname'', ''givenNames'', ''nationality'', ''dateOfBirth'', ''gender'',
      ''dateOfExpiry'', ''citizenshipNumber'']"

definition step :: "string \<Rightarrow> (jsval \<Rightarrow> error + jsval) \<Rightarrow> obj \<Rightarrow> (obj \<Rightarrow> error + obj) \<Rightarrow> error + obj" where
  \<comment> \<open>a block that assigns the property \<open>key\<close>, followed by the rest of the function\<close>
  "step key block data rest = bindE (block (get data key)) (\<lambda>v. rest (set_key key v data))"

definition extractPassportData :: "string \<Rightarrow> obj option \<Rightarrow> error + obj" where
  "extractPassportData text mrzData =
     (let data = fold (mrz_apply mrzData) mrz_fields_applied (passport_init text);
          normalizedText = normalize text;
          lines = text_lines text
      in
      step ''passportNumber'' (passportNumber_label lines) data (\<lambda>data.
      step ''passportNumber'' (passportNumber_fallback normalizedText lines) data (\<lambda>data.
      step ''dateOfBirth'' (dateOfBirth_label lines) data (\<lambda>data.
      step ''dateOfBirth'' (dateOfBirth_fallback lines) data (\<lambda>data.
      step ''dateOfExpiry'' (dateOfExpiry_label lines) data (\<lambda>data.
      step ''dateOfExpiry'' (dateOfExpiry_fallback lines) data (\<lambda>data.
      let be = dates_fallback normalizedText (get data ''dateOfBirth'', get data ''dateOfExpiry'');
          data = set_key ''dateOfBirth'' (fst be) data;
          data = set_key ''dateOfExpiry'' (snd be) data
      in
      step ''gender'' (gender_block normalizedText) data (\<lambda>data.
      step ''nationality'' (nationality_label lines) data (\<lambda>data.
      step ''nationality'' (nationality_fallback lines) data (\<lambda>data.
      step ''surname'' (surname_label lines) data (\<lambda>data.
      step ''givenNames'' (givenNames_label lines) data (\<lambda>data.
      step ''givenNames'' (givenNames_fallback lines) data (\<lambda>data.
      step ''placeOfBirth'' (placeOfBirth_label lines) data (\<lambda>data.
      step ''placeOfBirth'' (placeOfBirth_fallback lines) data (\<lambda>data.
      step ''fatherName'' (fatherName_label lines) data (\<lambda>data.
      step ''fatherName'' (fatherName_fallback lines) data (\<lambda>data.
      step ''dateOfIssue'' (dateOfIssue_label lines) data (\<lambda>data.
      step ''issuingAuthority'' (issuingAuthority_label lines) data (\<lambda>data.
      step ''issuingAuthority'' (issuingAuthority_fallback lines) data (\<lambda>data.
      step ''trackingNumber'' (trackingNumber_label lines) data (\<lambda>data.
      step ''trackingNumber'' (trackingNumber_fallback lines) data (\<lambda>data.
      step ''citizenshipNumber'' (citizenshipNumber_label lines) data (\<lambda>data.
      step ''citizenshipNumber'' (citizenshipNumber_fallback lines) data (\<lambda>data.
      step ''dateOfIssue'' (dateOfIssue_fallback normalizedText) data (\<lambda>data.
      Inr data)))))))))))))))))))))))))"

section \<open>cleanData (ocrService.js, lines 2127-2171)\<close>

definition cnicRequiredFields :: "string list" where
  "cnicRequiredFields = [''name'', ''fatherName'', ''country'', ''cnicNumber'']"

definition passportRequiredFields :: "string list" where
  "passportRequiredFields =
     [''passportNumber'', ''surname'', ''givenNames'', ''nationality'', ''fatherName'',
      ''dateOfIssue'', ''issuingAuthority'', ''trackingNumber'', ''husbandName'',
      ''citizenshipNumber'']"

definition requiredFieldsOf :: "obj \<Rightarrow> string list" where
  \<comment> \<open>\<^verbatim>\<open>isPassport ? passportRequiredFields : cnicRequiredFields\<close>\<close>
  "requiredFieldsOf data =
     (let isPassport = (has_key ''passportNumber'' data \<or> has_key ''surname'' data)
      in if isPassport then passportRequiredFields else cnicRequiredFields)"

definition removeNulls :: "string list \<Rightarrow> string \<Rightarrow> obj \<Rightarrow> obj" where
  \<comment> \<open>the body of \<^verbatim>\<open>Object.keys(cleaned).forEach\<close>\<close>
  "removeNulls requiredFields key cleaned =
     (if get cleaned key = JNull \<or> get cleaned key = JStr []
      then (if key \<notin> set requiredFields then delete_key key cleaned else cleaned)
      else cleaned)"

definition ensureField :: "string \<Rightarrow> obj \<Rightarrow> obj" where
  \<comment> \<open>the body of \<^verbatim>\<open>requiredFields.forEach\<close>\<close>
  "ensureField field cleaned =
     (if \<not> has_key field cleaned then set_key field JNull cleaned else cleaned)"

definition cleanData :: "obj \<Rightarrow> obj" where
  "cleanData data =
     (let cleaned = data;
          requiredFields = requiredFieldsOf data;
          cleaned = fold (removeNulls requiredFields) (map fst cleaned) cleaned;
          cleaned = fold ensureField requiredFields cleaned
      in cleaned)"

section \<open>Confidence scoring of the passport route (part\_001, lines 331-345)\<close>

text \<open>
  \<^verbatim>\<open>Math.round\<close> rounds to the nearest integer, a tie towards plus infinity. The
  route computes on IEEE doubles; the model computes on exact rationals. For the
  accuracy, \<^verbatim>\<open>(k / 12) * 100\<close> with \<open>k\<close> in 0..12 is at distance at least 1/6 from
  every tie, far more than the rounding error of a double, so both round alike.
\<close>

definition Math_round :: "rat \<Rightarrow> int" where
  "Math_round x = \<lfloor>x + 1 / 2\<rfloor>"

definition fieldsToCheck :: "string list" where
  "fieldsToCheck =
     [''passportNumber'', ''surname'', ''givenNames'', ''nationality'', ''dateOfBirth'',
      ''placeOfBirth'', ''gender'', ''dateOfIssue'', ''dateOfExpiry'', ''issuingAuthority'',
      ''husbandName'', ''citizenshipNumber'']"

definition isExtracted :: "obj \<Rightarrow> string \<Rightarrow> bool" where
  \<comment> \<open>the filter of lines 336-340\<close>
  "isExtracted cleanedData field =
     (get cleanedData field \<noteq> JNull \<and> get cleanedData field \<noteq> JStr [] \<and>
      get cleanedData field \<noteq> JUndefined)"

definition extractionAccuracy :: "obj \<Rightarrow> int" where
  "extractionAccuracy cleanedData =
     (let totalFields = length fieldsToCheck;
          extractedFields = length (filter (isExtracted cleanedData) fieldsToCheck)
      in if totalFields > 0
         then Math_round ((rat_of_nat extractedFields / rat_of_nat totalFields) * 100)
         else 0)"

definition spec_extractionAccuracy :: "obj \<Rightarrow> int" where
  \<comment> \<open>The accuracy as the specification words it: the share of the passport
      required fields that carry a non-null value.\<close>
  "spec_extractionAccuracy cleanedData =
     Math_round (100 * rat_of_nat (length (filter (\<lambda>f. get cleanedData f \<noteq> JNull)
                                              passportRequiredFields))
                 / rat_of_nat (length passportRequiredFields))"

section \<open>The passport route (part\_001, lines 100-378)\<close>

text \<open>
  The route receives the uploaded file; the text recovered from it by the PDF reader or
  the OCR engine, the per-word confidences of the OCR engine and the MRZ parser of the
  package \<^verbatim>\<open>mrz\<close> are external: the text and the confidences are inputs of the model,
  the parser is a parameter. The parser returns a validity flag and the decoded fields,
  or throws.
\<close>

datatype upload = Pdf | Image "rat list option"

datatype parse_result = ParseThrows | Parsed bool obj

definition ocrConfidence_of :: "upload \<Rightarrow> rat" where
  \<comment> \<open>lines 116-147; \<open>None\<close> is a result without \<^verbatim>\<open>words\<close>\<close>
  "ocrConfidence_of u =
     (case u of
        Pdf \<Rightarrow> 85
      | Image None \<Rightarrow> 0
      | Image (Some words) \<Rightarrow>
          if length words > 0 then
            (let confidences =
                   filter (\<lambda>conf. conf > 0)
                          (map (\<lambda>confidence. if confidence = 0 then 0 else confidence) words)
             in if length confidences > 0
                then sum_list confidences / rat_of_nat (length confidences) else 0)
          else 0)"

fun for_each :: "nat list \<Rightarrow> (nat \<Rightarrow> 's \<Rightarrow> error + 's step) \<Rightarrow> 's \<Rightarrow> error + 's" where
  \<comment> \<open>a loop over the listed indices in order\<close>
  "for_each [] body s = Inr s"
| "for_each (i # is) body s =
     (case body i s of
        Inl e \<Rightarrow> Inl e
      | Inr (Break s') \<Rightarrow> Inr s'
      | Inr (Continue s') \<Rightarrow> for_each is body s')"

definition strip_noise :: "string \<Rightarrow> string" where
  \<comment> \<open>lines 167-171\<close>
  "strip_noise line =
     re_replace_all rspace []
       (re_replace_all (Seq (rstr_i ''peor'') (rstar rspace)) []
          (re_replace_all (Seq (rstr_i ''vo'') (rstar rspace)) []
             (re_replace_all (rchar CHR ''|'') [] line)))"

definition hasMRZPattern :: "string \<Rightarrow> bool" where
  \<comment> \<open>lines 175-176, with \<^verbatim>\<open>/PSPAK|P<PAK|AA\d+|PAK\d{6}[MF]|CLL|LLL/\<close>\<close>
  "hasMRZPattern line =
     (re_test (alts [rstr ''PSPAK'', rstr ''P<PAK'', Seq (rstr ''AA'') (rplus rdigit),
                     seqs [rstr ''PAK'', rrep 6 rdigit, Chr (\<lambda>c. c = CHR ''M'' \<or> c = CHR ''F'')],
                     rstr ''CLL'', rstr ''LLL'']) line \<or>
      (length line \<ge> 20 \<and> (str_includes line ''PAK'' \<or> str_includes line ''<<'')))"

definition clean_mrz :: "string \<Rightarrow> string" where
  \<comment> \<open>lines 180-190, the replacements in the order of the source\<close>
  "clean_mrz line =
     (let l = re_replace_all (Chr (\<lambda>c. \<not> (is_upper c \<or> is_digit c \<or> c = CHR ''<''))) [] line;
          l = re_replace_all (rstr ''PS'') [TStr ''P<''] l;
          l = re_replace_all (seqs [Bol, rchar CHR ''P'', Grp 1 (Chr is_upper)])
                [TStr ''P<'', TGroup 1] l;
          l = re_replace_all (rstr ''CLL'') [TStr ''<''] l;
          l = re_replace_all (rstr ''LLL'') [TStr ''<''] l;
          l = re_replace_all (rstr ''LL'') [TStr ''<''] l;
          l = re_replace_all (seqs [Grp 1 (Chr is_upper), rchar CHR ''K'', Grp 2 (Chr is_upper)])
                [TGroup 1, TStr ''<'', TGroup 2] l;
          l = re_replace_all (rstr ''K<<<'') [TStr ''<<<''] l;
          l = re_replace_all (rstr ''K<<'') [TStr ''<<''] l;
          l = re_replace_all (rstr ''K<'') [TStr ''<''] l
      in l)"

definition has_marker :: "string \<Rightarrow> bool" where
  \<comment> \<open>\<^verbatim>\<open>s.startsWith('P<') || s.startsWith('I<') || s.startsWith('A<')\<close>\<close>
  "has_marker s = (startsWith s ''P<'' \<or> startsWith s ''I<'' \<or> startsWith s ''A<'')"

definition isLine1 :: "string \<Rightarrow> bool" where
  \<comment> \<open>lines 197-204\<close>
  "isLine1 cleanedLine =
     (startsWith cleanedLine ''P<'' \<or> startsWith cleanedLine ''I<'' \<or>
      startsWith cleanedLine ''A<'' \<or>
      re_test (seqs [Bol, rchar CHR ''P'', rrep 3 (Chr is_upper)]) cleanedLine \<or>
      re_test (seqs [Bol, rchar CHR ''I'', rrep 3 (Chr is_upper)]) cleanedLine \<or>
      re_test (seqs [Bol, rchar CHR ''A'', rrep 3 (Chr is_upper)]) cleanedLine \<or>
      (str_includes cleanedLine ''PAK'' \<and> str_includes cleanedLine ''<'') \<or>
      (str_includes cleanedLine ''<'' \<and>
       re_test (seqs [rrep 3 (Chr is_upper), rplus (Chr is_upper)]) cleanedLine))"

definition fix_line1 :: "string \<Rightarrow> string" where
  \<comment> \<open>lines 208-210, with \<^verbatim>\<open>/^([PIA])([A-Z])/\<close>\<close>
  "fix_line1 cleanedLine =
     (if \<not> startsWith cleanedLine ''P<'' \<and> \<not> startsWith cleanedLine ''I<'' \<and>
         \<not> startsWith cleanedLine ''A<''
      then re_replace
             (seqs [Bol, Grp 1 (Chr (\<lambda>c. c = CHR ''P'' \<or> c = CHR ''I'' \<or> c = CHR ''A'')),
                    Grp 2 (Chr is_upper)])
             [TGroup 1, TStr ''<'', TGroup 2] cleanedLine
      else cleanedLine)"

definition isLine2 :: "string \<Rightarrow> bool" where
  \<comment> \<open>lines 218-220\<close>
  "isLine2 cleanedLine =
     ((re_test (seqs [Bol, rmin 9 (Chr (\<lambda>c. is_upper c \<or> is_digit c))]) cleanedLine \<and>
       (str_includes cleanedLine ''<'' \<or>
        re_test (seqs [rrep 6 rdigit, Chr (\<lambda>c. c = CHR ''M'' \<or> c = CHR ''F''), rrep 6 rdigit])
                cleanedLine \<or>
        str_includes cleanedLine ''PAK'')) \<or>
      (length cleanedLine \<ge> 25 \<and>
       re_test (seqs [Bol, rrep 2 (Chr is_upper), rmin 7 rdigit]) cleanedLine))"

definition isLine2_fallback :: "string \<Rightarrow> bool" where
  \<comment> \<open>lines 225-227\<close>
  "isLine2_fallback cleanedLine =
     (length cleanedLine \<ge> 25 \<and>
      re_test (seqs [Bol, Chr (\<lambda>c. is_upper c \<or> is_digit c)]) cleanedLine \<and>
      \<not> startsWith cleanedLine ''P<'' \<and> \<not> startsWith cleanedLine ''I<'' \<and>
      \<not> startsWith cleanedLine ''A<'' \<and>
      \<not> re_test (seqs [Bol, Chr (\<lambda>c. c = CHR ''P'' \<or> c = CHR ''I'' \<or> c = CHR ''A''),
                       rrep 3 (Chr is_upper)]) cleanedLine)"

definition mrz_body :: "string list \<Rightarrow> nat \<Rightarrow> string list \<Rightarrow> error + string list step" where
  \<comment> \<open>lines 163-236\<close>
  "mrz_body allLines i mrzLines =
     (case idx allLines i of
        None \<Rightarrow> Inl TypeError
      | Some l \<Rightarrow>
          (let line = strip_noise l in
           if length line \<ge> 20 \<or> hasMRZPattern line then
             (let cleanedLine = clean_mrz line;
                  mrzLines =
                    (if length cleanedLine \<ge> 20 then
                       (if length mrzLines = 0 then
                          (if isLine1 cleanedLine then mrzLines @ [fix_line1 cleanedLine]
                           else mrzLines)
                        else if length mrzLines = 1 then
                          (if isLine2 cleanedLine then mrzLines @ [cleanedLine]
                           else if isLine2_fallback cleanedLine then mrzLines @ [cleanedLine]
                           else mrzLines)
                        else mrzLines)
                     else mrzLines)
              in if length mrzLines \<ge> 2 then Inr (Break mrzLines)
                 else Inr (Continue mrzLines))
           else Inr (Continue mrzLines)))"

definition find_mrz_lines :: "string \<Rightarrow> error + string list" where
  \<comment> \<open>lines 151-237: the last 15 lines, from the last one upwards\<close>
  "find_mrz_lines extractedText =
     (let allLines = map trim (split (rchar (CHR 0x0A)) extractedText)
      in for_each (rev [length allLines - 15 ..< length allLines]) (mrz_body allLines) [])"

definition mrz_line1 :: "string \<Rightarrow> string" where
  \<comment> \<open>lines 245 and 249-257\<close>
  "mrz_line1 l =
     (let line1 = substring (padEnd l 44 CHR ''<'') 0 44 in
      if \<not> startsWith line1 ''P<'' \<and> \<not> startsWith line1 ''I<'' \<and> \<not> startsWith line1 ''A<''
      then (if startsWith line1 ''P'' then ''P<'' @ substring_from line1 1
            else if startsWith line1 ''I'' then ''I<'' @ substring_from line1 1
            else if startsWith line1 ''A'' then ''A<'' @ substring_from line1 1
            else line1)
      else line1)"

definition mrz_line2 :: "string \<Rightarrow> string" where
  \<comment> \<open>line 246\<close>
  "mrz_line2 l = substring (padEnd l 44 CHR ''<'') 0 44"

fun digits_value :: "nat \<Rightarrow> string \<Rightarrow> nat" where
  "digits_value acc [] = acc"
| "digits_value acc (x # xs) =
     (if is_digit x then digits_value (10 * acc + (of_char x - 48)) xs else acc)"

definition parseInt :: "string \<Rightarrow> nat option" where
  \<comment> \<open>\<^verbatim>\<open>parseInt\<close> on a text without sign: the leading digits; \<open>None\<close> is NaN\<close>
  "parseInt s0 =
     (let s = dropWhile is_space s0
      in case s of [] \<Rightarrow> None
         | x # _ \<Rightarrow> if is_digit x then Some (digits_value 0 s) else None)"

definition month_of :: "nat option \<Rightarrow> string" where
  \<comment> \<open>\<^verbatim>\<open>`${months[parseInt(month) - 1]}`\<close>\<close>
  "month_of n =
     (case n of None \<Rightarrow> ''undefined''
      | Some k \<Rightarrow> if 1 \<le> k \<and> k \<le> 12 then months ! (k - 1) else ''undefined'')"

definition part_of :: "string list \<Rightarrow> nat \<Rightarrow> string" where
  \<comment> \<open>an element of a destructured array, as a template prints it\<close>
  "part_of parts n = (case idx parts n of None \<Rightarrow> ''undefined'' | Some x \<Rightarrow> x)"

definition formatDate :: "jsval \<Rightarrow> jsval" where
  \<comment> \<open>lines 268-286\<close>
  "formatDate dateStr =
     (case dateStr of
        JStr d \<Rightarrow>
          if d = [] then JNull
          else if re_test (seqs [Bol, rrep 4 rdigit, rchar CHR ''-'', rrep 2 rdigit,
                                 rchar CHR ''-'', rrep 2 rdigit, Eol]) d
          then (let parts = split (rstr ''-'') d;
                    year = part_of parts 0;
                    day = part_of parts 2
                in JStr (day @ '' '' @ month_of (case idx parts 1 of None \<Rightarrow> None
                                                  | Some month \<Rightarrow> parseInt month)
                         @ '' '' @ year))
          else JStr d
      | _ \<Rightarrow> JNull)"

definition mrz_citizenshipNumber :: "obj \<Rightarrow> error + jsval" where
  \<comment> \<open>lines 289-304\<close>
  "mrz_citizenshipNumber fields =
     (case get fields ''optionalData'' of
        JStr od \<Rightarrow>
          if od = [] then Inr JNull
          else
            (let optionalData = re_replace_all rspace [] od
             in case re_match (Grp 1 (seqs [rrep 5 rdigit, ropt (rchar CHR ''-''), rrep 7 rdigit,
                                            ropt (rchar CHR ''-''), rrep 1 rdigit]))
                       optionalData of
                  Some cnicMatch \<Rightarrow>
                    (case group cnicMatch 1 of
                       None \<Rightarrow> Inl TypeError
                     | Some g \<Rightarrow>
                         (let cnic = re_replace_all (rchar CHR ''-'') [] g
                          in if length cnic = 13 then Inr (JStr (formatCnic cnic))
                             else Inr JNull))
                | None \<Rightarrow>
                    if re_test (seqs [Bol, rrep 13 rdigit, Eol]) optionalData
                    then Inr (JStr (formatCnic optionalData)) else Inr JNull)
      | _ \<Rightarrow> Inr JNull)"

definition or_null :: "jsval \<Rightarrow> jsval" where
  \<comment> \<open>\<^verbatim>\<open>v || null\<close>\<close>
  "or_null v = (if truthy v then v else JNull)"

definition mrz_record :: "obj \<Rightarrow> jsval \<Rightarrow> obj" where
  \<comment> \<open>lines 307-317\<close>
  "mrz_record fields citizenshipNumber =
     [(''passportNumber'', or_null (get fields ''documentNumber'')),
      (''surname'', or_null (get fields ''lastName'')),
      (''givenNames'', or_null (get fields ''firstName'')),
      (''nationality'', or_null (get fields ''nationality'')),
      (''dateOfBirth'', formatDate (get fields ''birthDate'')),
      (''gender'', if truthy (get fields ''sex'')
                   then (if get fields ''sex'' = JStr ''M'' then JStr ''MALE'' else JStr ''FEMALE'')
                   else JNull),
      (''dateOfExpiry'', formatDate (get fields ''expirationDate'')),
      (''issuingAuthority'', or_null (get fields ''issuingCountry'')),
      (''citizenshipNumber'', citizenshipNumber)]"

definition mrz_text :: "string list \<Rightarrow> string option" where
  \<comment> \<open>lines 245-259: the two normalised lines joined by a line feed; \<open>None\<close> when a
      line is missing and \<^verbatim>\<open>padEnd\<close> throws\<close>
  "mrz_text mrzLines =
     (case idx mrzLines 0 of
        None \<Rightarrow> None
      | Some l0 \<Rightarrow>
          (case idx mrzLines 1 of
             None \<Rightarrow> None
           | Some l1 \<Rightarrow> Some (mrz_line1 l0 @ [CHR 0x0A] @ mrz_line2 l1)))"

definition decode_mrz :: "(string \<Rightarrow> parse_result) \<Rightarrow> string list \<Rightarrow> obj option" where
  \<comment> \<open>lines 242-325: whatever is thrown inside the \<^verbatim>\<open>try\<close> leaves \<^verbatim>\<open>mrzData\<close> null\<close>
  "decode_mrz parse mrzLines =
     (if length mrzLines \<ge> 2 then
        (case mrz_text mrzLines of
           None \<Rightarrow> None
         | Some mrzText \<Rightarrow>
             (case parse mrzText of
                ParseThrows \<Rightarrow> None
              | Parsed valid fields \<Rightarrow>
                  if valid then
                    (case mrz_citizenshipNumber fields of
                       Inl e \<Rightarrow> None
                     | Inr citizenshipNumber \<Rightarrow> Some (mrz_record fields citizenshipNumber))
                  else None))
      else None)"

record response =
  r_data :: obj
  r_ocrConfidence :: int
  r_extractionAccuracy :: int
  r_overallConfidence :: int
  r_mrzUsed :: bool
  r_debugRawText :: "string option"

definition overallConfidence_of :: "rat \<Rightarrow> int \<Rightarrow> bool \<Rightarrow> int" where
  \<comment> \<open>lines 344-345\<close>
  "overallConfidence_of ocrConfidence accuracy mrz =
     (let mrzBonus = (if mrz then 20 else 0)
      in min 100 (Math_round (ocrConfidence * (1 / 2) + rat_of_int accuracy * (3 / 10)
                              + mrzBonus)))"

definition passport_route ::
  "(string \<Rightarrow> parse_result) \<Rightarrow> upload \<Rightarrow> string \<Rightarrow> bool \<Rightarrow> error + response" where
  \<comment> \<open>The successful path of the handler from line 116 on; \<open>Inl\<close> is an exception that
      reaches the handler's \<^verbatim>\<open>catch\<close> and becomes the failure response. Of the
      response, the message and the numbered lines of \<^verbatim>\<open>debug\<close> are left out.\<close>
  "passport_route parse file extractedText debug =
     (let ocrConfidence = ocrConfidence_of file in
      bindE (find_mrz_lines extractedText) (\<lambda>mrzLines.
      let mrzData = decode_mrz parse mrzLines in
      bindE (extractPassportData extractedText mrzData) (\<lambda>extractedData.
      let cleanedData = cleanData extractedData;
          accuracy = extractionAccuracy cleanedData;
          overallConfidence = overallConfidence_of ocrConfidence accuracy (mrzData \<noteq> None);
          includeRawText =
            (debug \<or> (\<not> truthy (get cleanedData ''surname'') \<and>
                      \<not> truthy (get cleanedData ''givenNames'') \<and>
                      \<not> truthy (get cleanedData ''passportNumber'')))
      in Inr \<lparr>r_data = cleanedData,
              r_ocrConfidence = Math_round ocrConfidence,
              r_extractionAccuracy = accuracy,
              r_overallConfidence = overallConfidence,
              r_mrzUsed = (mrzData \<noteq> None),
              r_debugRawText = (if includeRawText then Some extractedText else None)\<rparr>)))"

section \<open>Properties of cleanData\<close>

lemma get_delete_key:
  "get (delete_key k ob) k' = (if k' = k then JUndefined else get ob k')"
  by (induction ob) (auto simp: get_def delete_key_def)

lemma get_set_key:
  "get (set_key k v ob) k' = (if k' = k then v else get ob k')"
  by (induction ob) (auto simp: get_def)

lemma has_key_get: "\<not> has_key k ob \<Longrightarrow> get ob k = JUndefined"
  by (induction ob) (auto simp: get_def has_key_def)

lemma get_fold_removeNulls:
  "get (fold (removeNulls req) ks ob) k =
     (if k \<in> set ks \<and> k \<notin> set req \<and> (get ob k = JNull \<or> get ob k = JStr [])
      then JUndefined else get ob k)"
proof (induction ks arbitrary: ob)
  case Nil
  then show ?case by simp
next
  case (Cons x ks)
  show ?case
    by (simp add: Cons.IH) (auto simp: removeNulls_def get_delete_key)
qed

lemma isExtracted_fold_ensureField:
  "isExtracted (fold ensureField fs ob) k = isExtracted ob k"
proof (induction fs arbitrary: ob)
  case Nil
  then show ?case by simp
next
  case (Cons f fs)
  have "isExtracted (ensureField f ob) k = isExtracted ob k"
    by (auto simp: ensureField_def isExtracted_def get_set_key dest: has_key_get)
  then show ?case by (simp add: Cons.IH)
qed

lemma isExtracted_cleanData_key: "isExtracted (cleanData data) k = isExtracted data k"
  by (simp add: cleanData_def Let_def isExtracted_fold_ensureField)
     (auto simp: isExtracted_def get_fold_removeNulls)

lemma isExtracted_cleanData: "isExtracted (cleanData data) = isExtracted data"
  by (rule ext) (rule isExtracted_cleanData_key)

section \<open>Claims\<close>

text \<open>
  C4 (as stated in the specification, refuted): the reported accuracy would be the share
  of the ten passport required fields that are non-null. The route counts the twelve
  names of \<^verbatim>\<open>fieldsToCheck\<close> instead. On the cleaned record of an extraction that found
  only a date of birth the route reports 8 where the stated formula gives 0.
\<close>

theorem C4_counterexample:
  "extractionAccuracy (cleanData
      [(''passportNumber'', JNull), (''surname'', JNull), (''givenNames'', JNull),
       (''nationality'', JNull), (''dateOfBirth'', JStr ''01 JAN 1990''),
       (''placeOfBirth'', JNull), (''gender'', JNull), (''dateOfIssue'', JNull),
       (''dateOfExpiry'', JNull), (''issuingAuthority'', JNull), (''husbandName'', JNull),
       (''fatherName'', JNull), (''citizenshipNumber'', JNull), (''trackingNumber'', JNull),
       (''rawText'', JStr ''Date of Birth: 01 JAN 1990'')]) = 8
   \<and> spec_extractionAccuracy (cleanData
      [(''passportNumber'', JNull), (''surname'', JNull), (''givenNames'', JNull),
       (''nationality'', JNull), (''dateOfBirth'', JStr ''01 JAN 1990''),
       (''placeOfBirth'', JNull), (''gender'', JNull), (''dateOfIssue'', JNull),
       (''dateOfExpiry'', JNull), (''issuingAuthority'', JNull), (''husbandName'', JNull),
       (''fatherName'', JNull), (''citizenshipNumber'', JNull), (''trackingNumber'', JNull),
       (''rawText'', JStr ''Date of Birth: 01 JAN 1990'')]) = 0"
  by code_simp

text \<open>
  C4 (amended): for every extraction record, the accuracy reported on the cleaned record
  is the number of the twelve checked fields (passportNumber, surname, givenNames,
  nationality, dateOfBirth, placeOfBirth, gender, dateOfIssue, dateOfExpiry,
  issuingAuthority, husbandName, citizenshipNumber) that the extraction left neither
  null nor empty nor undefined, times 100, divided by 12 and rounded to the nearest
  integer.
\<close>

theorem C4_extractionAccuracy:
  "extractionAccuracy (cleanData data) =
     Math_round (100 * rat_of_nat (card {f \<in> set fieldsToCheck. isExtracted data f}) / 12)"
proof -
  have d: "distinct fieldsToCheck"
    by (simp add: fieldsToCheck_def)
  have "length (filter (isExtracted data) fieldsToCheck) =
        card {f \<in> set fieldsToCheck. isExtracted data f}"
    using d by (simp add: distinct_length_filter Int_def conj_commute)
  moreover have "length fieldsToCheck = 12"
    by (simp add: fieldsToCheck_def)
  ultimately show ?thesis
    by (simp add: extractionAccuracy_def Let_def isExtracted_cleanData mult.commute)
qed

end
